theory Spec2Isabelle
  imports Complex_Main "HOL-Library.AList" "HOL-Library.Sublist" "HOL-Library.Multiset"
begin

section \<open>Values of the host language\<close>

text \<open>
  The nutrient records of the client and the JSON attachments of the server are loosely
  typed JavaScript values. A number is a finite value computed exactly (a rational): the
  records are decoded from JSON, which carries neither NaN nor an infinity, and rounding
  error of the double arithmetic is not part of the model. An object is the list of its
  own properties in insertion order.
\<close>

datatype jsval =
    JUndefined
  | JNull
  | JBool bool
  | JNum rat
  | JStr string
  | JArr "jsval list"
  | JObj "(string \<times> jsval) list"

type_synonym obj = "(string \<times> jsval) list"

text \<open>Property read \<open>o[k]\<close>: a missing property reads as \<open>undefined\<close>.\<close>

definition get_prop :: "obj \<Rightarrow> string \<Rightarrow> jsval" where
  "get_prop ob k = (case map_of ob k of None \<Rightarrow> JUndefined | Some v \<Rightarrow> v)"

text \<open>Truthiness, as \<open>Boolean(v)\<close>, \<open>!v\<close> and \<open>v || w\<close> decide it.\<close>

fun truthy :: "jsval \<Rightarrow> bool" where
  "truthy JUndefined = False"
| "truthy JNull = False"
| "truthy (JBool b) = b"
| "truthy (JNum x) = (x \<noteq> 0)"
| "truthy (JStr s) = (s \<noteq> [])"
| "truthy (JArr xs) = True"
| "truthy (JObj kvs) = True"

definition js_or :: "jsval \<Rightarrow> jsval \<Rightarrow> jsval" where
  "js_or a b = (if truthy a then a else b)"

text \<open>\<open>a || b\<close> on two numbers.\<close>

definition num_or :: "rat \<Rightarrow> rat \<Rightarrow> rat" where
  "num_or a b = (if a \<noteq> 0 then a else b)"

text \<open>\<open>Math.round\<close>: the nearest integer, a tie going up.\<close>

definition js_round :: "rat \<Rightarrow> rat" where
  "js_round x = of_int \<lfloor>x + 1 / 2\<rfloor>"

text \<open>Object spread \<open>{...base, ...ext}\<close> and the literal \<open>{...base, k: v}\<close>: a key that is
  already there keeps its place and takes the new value, a new key goes to the end.\<close>

definition spread :: "('k \<times> 'v) list \<Rightarrow> ('k \<times> 'v) list \<Rightarrow> ('k \<times> 'v) list" where
  "spread base ext = fold (\<lambda>(k, v). AList.update k v) ext base"

subsection \<open>Strings\<close>

text \<open>\<open>s.includes(sub)\<close>: \<open>sub\<close> occurs in \<open>s\<close> as a contiguous run.\<close>

fun str_includes :: "string \<Rightarrow> string \<Rightarrow> bool" where
  "str_includes [] sub = (sub = [])"
| "str_includes (c # cs) sub = (prefix sub (c # cs) \<or> str_includes cs sub)"

text \<open>\<open>s.replace(pat, rep)\<close> with a string pattern: the first occurrence only.\<close>

fun replace_first :: "string \<Rightarrow> string \<Rightarrow> string \<Rightarrow> string" where
  "replace_first [] pat rep = (if pat = [] then rep else [])"
| "replace_first (c # cs) pat rep =
     (if prefix pat (c # cs) then rep @ drop (length pat) (c # cs)
      else c # replace_first cs pat rep)"

text \<open>
  \<open>parseFloat\<close> belongs to the host. The functions below take it as the parameter
  \<open>pf\<close>, \<open>None\<close> standing for NaN, and the theorems hold for every such function. The
  definition here is the host function on plain decimal literals: leading blanks, an
  optional sign, digits, an optional fraction, anything after that ignored. It has no
  exponent part and no \<open>Infinity\<close>, and is used only to evaluate concrete records.
\<close>

definition is_digit :: "char \<Rightarrow> bool" where
  "is_digit c = (48 \<le> (of_char c :: nat) \<and> (of_char c :: nat) \<le> 57)"

definition digits_val :: "string \<Rightarrow> nat" where
  "digits_val ds = fold (\<lambda>c n. 10 * n + ((of_char c :: nat) - 48)) ds 0"

definition parseFloat :: "string \<Rightarrow> rat option" where
  "parseFloat s =
     (let s1 = dropWhile (\<lambda>c. c = CHR '' '') s;
          neg = (s1 \<noteq> [] \<and> hd s1 = CHR ''-'');
          s2 = (if s1 \<noteq> [] \<and> (hd s1 = CHR ''-'' \<or> hd s1 = CHR ''+'') then tl s1 else s1);
          ip = takeWhile is_digit s2;
          r1 = dropWhile is_digit s2;
          fp = (if r1 \<noteq> [] \<and> hd r1 = CHR ''.'' then takeWhile is_digit (tl r1) else []);
          m = of_nat (digits_val ip) + of_nat (digits_val fp) / 10 ^ length fp
      in if ip = [] \<and> fp = [] then None else Some (if neg then - m else m))"

section \<open>The nutrient field resolver (client, \<open>getNutritionValue\<close>)\<close>

text \<open>The candidate spellings of a field, in the order they are tried.\<close>

definition variations :: "string \<Rightarrow> string list" where
  "variations field =
     [field,
      replace_first field ''_g'' '''',
      replace_first field ''_mg'' '''',
      replace_first field ''g'' '''',
      replace_first field ''mg'' '''']"

text \<open>The loop over the candidates: the first one that holds a positive number or a
  string that parses as a number decides; when none does the result is 0.\<close>

fun resolve_variations :: "(string \<Rightarrow> rat option) \<Rightarrow> obj \<Rightarrow> string list \<Rightarrow> rat" where
  "resolve_variations pf data [] = 0"
| "resolve_variations pf data (variation # rest) =
     (case get_prop data variation of
        JNum v \<Rightarrow> if v > 0 then js_round v else resolve_variations pf data rest
      | JStr s \<Rightarrow> (case pf s of
                     Some x \<Rightarrow> js_round x
                   | None \<Rightarrow> resolve_variations pf data rest)
      | _ \<Rightarrow> resolve_variations pf data rest)"

definition getNutritionValue :: "(string \<Rightarrow> rat option) \<Rightarrow> obj option \<Rightarrow> string \<Rightarrow> rat" where
  "getNutritionValue pf data field =
     (case data of
        None \<Rightarrow> 0
      | Some d \<Rightarrow> resolve_variations pf d (variations field))"

section \<open>Meal totals on the client (\<open>calculateTotalNutrition\<close>)\<close>











section \<open>The nutrition service (server)\<close>

subsection \<open>Stored meals and the store\<close>

text \<open>
  A row of the meal table. Instants (\<open>Date\<close> values) are their time value, the
  milliseconds since the epoch. The numeric columns are kept by name, as the service reads
  them (\<open>meal[field]\<close>); a column that is null has no entry. \<open>details\<close> holds the
  remaining columns, which the service only copies.
\<close>

record meal =
  meal_id :: int
  user_id :: string
  image_url :: "string option"
  upload_time :: int
  created_at :: int
  updated_at :: int
  meal_name :: string
  meal_period :: string
  nutrients :: "(string \<times> rat) list"
  additives_json :: jsval
  ingredients :: jsval
  details :: obj

text \<open>\<open>findFirst\<close> and \<open>update\<close> by primary key of the store. \<open>update\<close> writes the given
  columns and no other.\<close>

definition findFirst :: "int \<Rightarrow> string \<Rightarrow> meal list \<Rightarrow> meal option" where
  "findFirst mid uid rows = List.find (\<lambda>m. meal_id m = mid \<and> user_id m = uid) rows"

definition update_meal :: "int \<Rightarrow> (meal \<Rightarrow> meal) \<Rightarrow> meal list \<Rightarrow> meal list" where
  "update_meal mid f rows = map (\<lambda>m. if meal_id m = mid then f m else m) rows"

text \<open>\<open>create\<close> gives the new row the next key of the auto-incremented column.\<close>

definition next_meal_id :: "meal list \<Rightarrow> int" where
  "next_meal_id rows = fold max (map meal_id rows) 0 + 1"

subsection \<open>Range statistics: the query and the aggregation\<close>

text \<open>
  Inside the aggregation a calendar date \<open>YYYY-MM-DD\<close> is identified with its day index,
  the number of days from 1970-01-01: \<open>new Date(d + "T00:00:00.000Z")\<close> is the first
  millisecond of day \<open>d\<close>, \<open>new Date(d + "T23:59:59.999Z")\<close> its last, and
  \<open>t.toISOString().split("T")[0]\<close> is the day that holds the instant \<open>t\<close> in UTC. The
  text of a date and its index determine each other, and for years of four digits the
  texts are ordered as the indices are. The read itself, further down, takes the two
  dates as texts and asks the calendar of the host for their indices.
\<close>

definition startDateTime :: "int \<Rightarrow> int" where
  "startDateTime startDate = startDate * 86400000"

definition endDateTime :: "int \<Rightarrow> int" where
  "endDateTime endDate = endDate * 86400000 + 86399999"

definition iso_day :: "int \<Rightarrow> int" where
  "iso_day t = t div 86400000"

text \<open>The query: the rows of the user created in the range, oldest first. Every numeric
  field the aggregation reads is among the selected columns.\<close>

definition in_range :: "string \<Rightarrow> int \<Rightarrow> int \<Rightarrow> meal \<Rightarrow> bool" where
  "in_range userId startDate endDate m =
     (user_id m = userId \<and> startDateTime startDate \<le> created_at m
        \<and> created_at m \<le> endDateTime endDate)"

definition findMany_range :: "string \<Rightarrow> int \<Rightarrow> int \<Rightarrow> meal list \<Rightarrow> meal list" where
  "findMany_range userId startDate endDate rows =
     sort_key created_at (filter (in_range userId startDate endDate) rows)"

definition numericFields :: "string list" where
  "numericFields =
     [''calories'', ''protein_g'', ''carbs_g'', ''fats_g'', ''saturated_fats_g'',
      ''polyunsaturated_fats_g'', ''monounsaturated_fats_g'', ''omega_3_g'', ''omega_6_g'',
      ''fiber_g'', ''soluble_fiber_g'', ''insoluble_fiber_g'', ''sugar_g'', ''cholesterol_mg'',
      ''sodium_mg'', ''alcohol_g'', ''caffeine_mg'', ''liquids_ml'', ''serving_size_g'',
      ''glycemic_index'', ''insulin_index'', ''confidence'']"

text \<open>\<open>(meal[field] as number) || 0\<close>: the stored number, 0 for a null column.\<close>

definition field_or_0 :: "(string \<times> rat) list \<Rightarrow> string \<Rightarrow> rat" where
  "field_or_0 cols field = (case map_of cols field of Some v \<Rightarrow> num_or v 0 | None \<Rightarrow> 0)"

text \<open>The totals object and the two nested loops that fill it. Every field has its entry
  from the first loop on, so \<open>totals[field] += x\<close> always finds one.\<close>

definition totals_init :: "(string \<times> rat) list" where
  "totals_init = fold (\<lambda>field totals. AList.update field 0 totals) numericFields []"

definition totals_add :: "(string \<times> rat) list \<Rightarrow> string \<Rightarrow> rat \<Rightarrow> (string \<times> rat) list" where
  "totals_add totals field x =
     (case map_of totals field of
        Some v \<Rightarrow> AList.update field (v + x) totals
      | None \<Rightarrow> AList.update field x totals)"

definition add_meal :: "meal \<Rightarrow> (string \<times> rat) list \<Rightarrow> (string \<times> rat) list" where
  "add_meal m totals =
     fold (\<lambda>field t. totals_add t field (field_or_0 (nutrients m) field)) numericFields totals"

definition sum_totals :: "meal list \<Rightarrow> (string \<times> rat) list" where
  "sum_totals rows = fold add_meal rows totals_init"

text \<open>The summary of a meal pushed into its day: key, owner, name, the numeric fields and
  the two instants.\<close>

record meal_summary =
  s_meal_id :: int
  s_user_id :: string
  s_meal_name :: string
  s_nutrients :: "(string \<times> rat) list"
  s_created_at :: int
  s_upload_time :: int

definition summary :: "meal \<Rightarrow> meal_summary" where
  "summary m =
     \<lparr>s_meal_id = meal_id m, s_user_id = user_id m, s_meal_name = meal_name m,
      s_nutrients =
        List.map_filter (\<lambda>field. map_option (Pair field) (map_of (nutrients m) field))
          numericFields,
      s_created_at = created_at m, s_upload_time = upload_time m\<rparr>"

record day_entry =
  date :: int
  meals :: "meal_summary list"

text \<open>The grouping \<open>reduce\<close>: \<open>acc\<close> is the object keyed by date, kept as the list of its
  values in insertion order.\<close>

definition group_meal :: "meal \<Rightarrow> day_entry list \<Rightarrow> day_entry list" where
  "group_meal m acc =
     (let d = iso_day (created_at m);
          acc' = (if d \<in> set (map date acc) then acc else acc @ [\<lparr>date = d, meals = []\<rparr>])
      in map (\<lambda>e. if date e = d then e\<lparr>meals := meals e @ [summary m]\<rparr> else e) acc')"

definition dailyData :: "meal list \<Rightarrow> day_entry list" where
  "dailyData rows = fold group_meal rows []"

definition round2 :: "rat \<Rightarrow> rat" where
  "round2 val = js_round (val * 100) / 100"

text \<open>The property names \<open>total_${field}\<close> and \<open>average_${field}\<close>.\<close>

definition total_key :: "string \<Rightarrow> string" where
  "total_key field = ''total_'' @ field"

definition average_key :: "string \<Rightarrow> string" where
  "average_key field = ''average_'' @ field"

record range_statistics =
  totalDays :: nat
  totalMeals :: nat
  figures :: "(string \<times> rat) list"
  dailyBreakdown :: "day_entry list"
  dateRange :: "(string \<times> string) option"

text \<open>The result for a non-empty and for an empty query result. \<open>figures\<close> holds the
  properties \<open>total_f\<close> and \<open>average_f\<close> of the result object, \<open>dateRange\<close> the two
  date texts of the call.\<close>

definition emptyResult :: range_statistics where
  "emptyResult =
     \<lparr>totalDays = 0, totalMeals = 0,
      figures = spread []
        (concat (map (\<lambda>field. [(total_key field, 0), (average_key field, 0)]) numericFields)),
      dailyBreakdown = [],
      dateRange = None\<rparr>"

definition rangeStatistics :: "meal list \<Rightarrow> string \<Rightarrow> string \<Rightarrow> range_statistics" where
  "rangeStatistics rows startDate endDate =
     (if length rows = 0 then emptyResult
      else
        let totals = sum_totals rows;
            uniqueDates = remdups (map (\<lambda>m. iso_day (created_at m)) rows);
            days = length uniqueDates;
            averages = spread []
              (map (\<lambda>(key, val). (average_key key, if days > 0 then val / of_nat days else 0))
                 totals)
        in \<lparr>totalDays = days,
            totalMeals = length rows,
            figures =
              spread
                (spread [] (map (\<lambda>(key, val). (total_key key, round2 val)) totals))
                (fold (\<lambda>(key, val) acc. AList.update key (round2 val) acc) averages []),
            dailyBreakdown = sort_key date (dailyData rows),
            dateRange = Some (startDate, endDate)\<rparr>)"

text \<open>Reading a numeric field of a summary and a figure of the result, 0 for a value
  that is not there.\<close>

definition summary_field :: "meal_summary \<Rightarrow> string \<Rightarrow> rat" where
  "summary_field x field = (case map_of (s_nutrients x) field of Some v \<Rightarrow> v | None \<Rightarrow> 0)"

text \<open>A stored meal as the record the resolver would read: its numeric columns as
  properties.\<close>

definition meal_record :: "meal \<Rightarrow> obj" where
  "meal_record m = map (\<lambda>(k, v). (k, JNum v)) (nutrients m)"

subsection \<open>The two caches\<close>

text \<open>What an entry holds (\<open>data: any\<close>): the result of a range statistics read, or
  another value (a list of meals, the statistics of a day).\<close>

datatype payload =
    Statistics range_statistics
  | Other jsval

record cache_entry =
  entry_data :: payload
  entry_timestamp :: int

type_synonym cache = "(string \<times> cache_entry) list"

record service =
  userStatsCache :: cache
  mealsCache :: cache
  db :: "meal list"

text \<open>The keys under which the read operations store their results.\<close>

definition meals_key :: "string \<Rightarrow> string \<Rightarrow> string \<Rightarrow> string" where
  "meals_key uid offset limit = ''user_meals_'' @ uid @ ''_'' @ offset @ ''_'' @ limit"

definition stats_key :: "string \<Rightarrow> string \<Rightarrow> string \<Rightarrow> string" where
  "stats_key uid startDate endDate = ''stats_'' @ uid @ ''_'' @ startDate @ ''_'' @ endDate"

definition daily_key :: "string \<Rightarrow> string \<Rightarrow> string" where
  "daily_key uid day = ''daily_'' @ uid @ ''_'' @ day"

text \<open>The two invalidation helpers: collect the keys that contain the user id, then
  delete them one by one.\<close>

definition clearUserCaches :: "string \<Rightarrow> service \<Rightarrow> service" where
  "clearUserCaches uid st =
     (let keysToDelete = filter (\<lambda>key. str_includes key uid) (map fst (userStatsCache st))
      in st\<lparr>userStatsCache := fold AList.delete keysToDelete (userStatsCache st)\<rparr>)"

definition clearUserMealsCaches :: "string \<Rightarrow> service \<Rightarrow> service" where
  "clearUserMealsCaches uid st =
     (let keysToDelete = filter (\<lambda>key. str_includes key uid) (map fst (mealsCache st))
      in st\<lparr>mealsCache := fold AList.delete keysToDelete (mealsCache st)\<rparr>)"

subsection \<open>Mapping analysed data to a row (\<open>mapMealDataToPrismaFields\<close>)\<close>

text \<open>\<open>mealData.a || mealData.b || dflt\<close>.\<close>

definition first_truthy :: "obj \<Rightarrow> string list \<Rightarrow> jsval \<Rightarrow> jsval" where
  "first_truthy mealData names dflt = foldr (\<lambda>k rest. js_or (get_prop mealData k) rest) names dflt"

text \<open>The numeric columns of the mapping: column, the properties read for it, the default.\<close>

definition numeric_columns :: "(string \<times> string list \<times> rat) list" where
  "numeric_columns =
     [(''calories'', [''calories''], 0),
      (''protein_g'', [''protein_g'', ''protein''], 0),
      (''carbs_g'', [''carbs_g'', ''carbs''], 0),
      (''fats_g'', [''fats_g'', ''fat''], 0),
      (''fiber_g'', [''fiber_g'', ''fiber''], 0),
      (''sugar_g'', [''sugar_g'', ''sugar''], 0),
      (''sodium_mg'', [''sodium_mg'', ''sodium''], 0),
      (''saturated_fats_g'', [''saturated_fats_g''], 0),
      (''polyunsaturated_fats_g'', [''polyunsaturated_fats_g''], 0),
      (''monounsaturated_fats_g'', [''monounsaturated_fats_g''], 0),
      (''omega_3_g'', [''omega_3_g''], 0),
      (''omega_6_g'', [''omega_6_g''], 0),
      (''soluble_fiber_g'', [''soluble_fiber_g''], 0),
      (''insoluble_fiber_g'', [''insoluble_fiber_g''], 0),
      (''cholesterol_mg'', [''cholesterol_mg''], 0),
      (''alcohol_g'', [''alcohol_g''], 0),
      (''caffeine_mg'', [''caffeine_mg''], 0),
      (''liquids_ml'', [''liquids_ml''], 0),
      (''serving_size_g'', [''serving_size_g''], 0),
      (''glycemic_index'', [''glycemic_index''], 0),
      (''insulin_index'', [''insulin_index''], 0),
      (''confidence'', [''confidence''], 75)]"

text \<open>The store takes a number for a numeric column and a string for a text column; any
  other value makes \<open>create\<close> and \<open>update\<close> throw. \<open>None\<close> is that failure.\<close>

fun numeric_values :: "obj \<Rightarrow> (string \<times> string list \<times> rat) list \<Rightarrow> (string \<times> rat) list option" where
  "numeric_values mealData [] = Some []"
| "numeric_values mealData ((column, names, dflt) # cols) =
     (case first_truthy mealData names (JNum dflt) of
        JNum v \<Rightarrow> map_option ((#) (column, v)) (numeric_values mealData cols)
      | _ \<Rightarrow> None)"

definition as_text :: "jsval \<Rightarrow> string option" where
  "as_text v = (case v of JStr s \<Rightarrow> Some s | _ \<Rightarrow> None)"

text \<open>The row built from \<open>mealData\<close>, without its key. The parameter \<open>mealType\<close> of the
  source function is not read by its body and is left out; \<open>now\<close> is \<open>new Date()\<close>.\<close>

definition mapMealDataToPrismaFields ::
  "obj \<Rightarrow> string \<Rightarrow> string option \<Rightarrow> jsval \<Rightarrow> int \<Rightarrow> meal option" where
  "mapMealDataToPrismaFields mealData uid imageBase64 mealPeriod now =
     (let finalMealPeriod =
            js_or mealPeriod (first_truthy mealData [''mealPeriod'', ''meal_period''] (JStr ''other''))
      in
      case (numeric_values mealData numeric_columns,
            as_text (first_truthy mealData [''meal_name'', ''name''] (JStr ''Unknown Meal'')),
            as_text finalMealPeriod) of
        (Some nums, Some name, Some period) \<Rightarrow>
          Some \<lparr>meal_id = 0,
                user_id = uid,
                image_url = (case imageBase64 of
                               None \<Rightarrow> None
                             | Some b \<Rightarrow> if b = [] then None
                                         else Some (''data:image/jpeg;base64,'' @ b)),
                upload_time = now,
                created_at = now,
                updated_at = now,
                meal_name = name,
                meal_period = period,
                nutrients = nums,
                additives_json = js_or (get_prop mealData ''additives_json'') (JObj []),
                ingredients = (case get_prop mealData ''ingredients'' of
                                 JArr xs \<Rightarrow> JArr xs
                               | _ \<Rightarrow> JArr []),
                details =
                  [(''analysis_status'', JStr ''COMPLETED''),
                   (''allergens_json'', js_or (get_prop mealData ''allergens_json'') (JObj [])),
                   (''vitamins_json'', js_or (get_prop mealData ''vitamins_json'') (JObj [])),
                   (''micronutrients_json'',
                      js_or (get_prop mealData ''micronutrients_json'') (JObj [])),
                   (''food_category'', js_or (get_prop mealData ''food_category'') (JStr [])),
                   (''processing_level'', js_or (get_prop mealData ''processing_level'') (JStr [])),
                   (''cooking_method'', js_or (get_prop mealData ''cooking_method'') (JStr [])),
                   (''health_risk_notes'',
                      js_or (get_prop mealData ''health_risk_notes'') (JStr []))]\<rparr>
      | _ \<Rightarrow> None)"

subsection \<open>The mutations\<close>

datatype error =
    MealNotFound
  | NoImageData
  | AnalysisFailed
  | FailedToSaveMeal
  | StoreError
  | InvalidDate

text \<open>\<open>saveMeal\<close> creates the row and returns it (the client view of it is a projection
  that no property below reads). It calls neither invalidation helper.\<close>

definition saveMeal ::
  "int \<Rightarrow> string \<Rightarrow> obj \<Rightarrow> string option \<Rightarrow> service \<Rightarrow> error + (meal \<times> service)" where
  "saveMeal now uid mealData imageBase64 st =
     (case mapMealDataToPrismaFields mealData uid imageBase64 (get_prop mealData ''mealPeriod'') now of
        None \<Rightarrow> Inl FailedToSaveMeal
      | Some row \<Rightarrow>
          let created = row\<lparr>meal_id := next_meal_id (db st)\<rparr>
          in Inr (created, st\<lparr>db := db st @ [created]\<rparr>))"

text \<open>The image of a stored meal, as \<open>updateMeal\<close> recovers it from \<open>image_url\<close>.\<close>

definition stored_image :: "meal \<Rightarrow> string" where
  "stored_image m =
     (case image_url m of
        None \<Rightarrow> []
      | Some url \<Rightarrow>
          if prefix ''data:image/'' url then
            (if CHR '','' \<in> set url then tl (dropWhile (\<lambda>c. c \<noteq> CHR '','') url) else [])
          else url)"

text \<open>
  \<open>updateMeal\<close> runs the analysis again and overwrites the row. The analysis is the
  external analyser's; its outcome is the parameter \<open>analysis\<close>, the analysed data or a
  failure. Only the meals cache is invalidated.
\<close>

definition updateMeal ::
  "int \<Rightarrow> (error + obj) \<Rightarrow> string \<Rightarrow> int \<Rightarrow> service \<Rightarrow> error + (meal \<times> service)" where
  "updateMeal now analysis uid mid st =
     (case findFirst mid uid (db st) of
        None \<Rightarrow> Inl MealNotFound
      | Some existingMeal \<Rightarrow>
          let imageBase64 = stored_image existingMeal in
          if imageBase64 = [] then Inl NoImageData
          else
            (case analysis of
               Inl e \<Rightarrow> Inl e
             | Inr analysed \<Rightarrow>
                 (case mapMealDataToPrismaFields analysed uid (Some imageBase64)
                         (js_or (JStr (meal_period existingMeal)) (JStr ''other'')) now of
                    None \<Rightarrow> Inl StoreError
                  | Some row \<Rightarrow>
                      let updatedMeal = row\<lparr>meal_id := mid, updated_at := now\<rparr>
                      in Inr (updatedMeal,
                              clearUserMealsCaches uid
                                (st\<lparr>db := update_meal mid (\<lambda>m. updatedMeal) (db st)\<rparr>)))))"

text \<open>Modelled from the spec: \<open>asJsonObject\<close> is imported from the utilities, which are
  not among the sources. A stored JSON value that is an object is read as that object; any
  other value degrades to the empty object.\<close>

definition asJsonObject :: "jsval \<Rightarrow> obj" where
  "asJsonObject v = (case v of JObj kvs \<Rightarrow> kvs | _ \<Rightarrow> [])"

text \<open>\<open>saveMealFeedback\<close>: \<open>now\<close> is \<open>new Date().toISOString()\<close>, \<open>mid\<close> the parsed meal
  id, \<open>feedback\<close> the supplied feedback object.\<close>

definition saveMealFeedback ::
  "string \<Rightarrow> string \<Rightarrow> int \<Rightarrow> obj \<Rightarrow> service \<Rightarrow> error + ((int \<times> obj) \<times> service)" where
  "saveMealFeedback now uid mid feedback st =
     (case findFirst mid uid (db st) of
        None \<Rightarrow> Inl MealNotFound
      | Some m \<Rightarrow>
          let additives = asJsonObject (additives_json m);
              existingFeedback = asJsonObject (get_prop additives ''feedback'');
              updatedAdditives =
                spread additives
                  [(''feedback'',
                    JObj (spread (spread existingFeedback feedback)
                            [(''updatedAt'', JStr now)]))]
          in Inr ((mid, feedback),
                  clearUserCaches uid
                    (st\<lparr>db := update_meal (meal_id m)
                                (\<lambda>r. r\<lparr>additives_json := JObj updatedAdditives\<rparr>) (db st)\<rparr>)))"

definition toggleMealFavorite ::
  "string \<Rightarrow> string \<Rightarrow> int \<Rightarrow> service \<Rightarrow> error + ((int \<times> bool) \<times> service)" where
  "toggleMealFavorite now uid mid st =
     (case findFirst mid uid (db st) of
        None \<Rightarrow> Inl MealNotFound
      | Some m \<Rightarrow>
          let additives = asJsonObject (additives_json m);
              current = truthy (get_prop additives ''isFavorite'');
              updatedAdditives =
                spread additives
                  [(''isFavorite'', JBool (\<not> current)), (''favoriteUpdatedAt'', JStr now)]
          in Inr ((mid, \<not> current),
                  clearUserCaches uid
                    (st\<lparr>db := update_meal (meal_id m)
                                (\<lambda>r. r\<lparr>additives_json := JObj updatedAdditives\<rparr>) (db st)\<rparr>)))"

text \<open>Modelled from the spec: \<open>mapExistingMealToPrismaInput\<close> is imported from the
  utilities, which are not among the sources. The duplicate carries the given date and the
  nutrient fields (and the other columns) of the original.\<close>

definition mapExistingMealToPrismaInput :: "meal \<Rightarrow> string \<Rightarrow> int \<Rightarrow> meal" where
  "mapExistingMealToPrismaInput originalMeal uid duplicateDate =
     originalMeal\<lparr>meal_id := 0, user_id := uid, created_at := duplicateDate\<rparr>"

text \<open>\<open>duplicateMeal\<close>: \<open>newDate\<close> is the parsed date when one is given, \<open>now\<close> the
  current instant.\<close>

definition duplicateMeal ::
  "int \<Rightarrow> string \<Rightarrow> int \<Rightarrow> int option \<Rightarrow> service \<Rightarrow> error + (meal \<times> service)" where
  "duplicateMeal now uid mid newDate st =
     (case findFirst mid uid (db st) of
        None \<Rightarrow> Inl MealNotFound
      | Some originalMeal \<Rightarrow>
          let duplicateDate = (case newDate of Some d \<Rightarrow> d | None \<Rightarrow> now);
              duplicatedMeal =
                (mapExistingMealToPrismaInput originalMeal uid duplicateDate)
                  \<lparr>meal_id := next_meal_id (db st)\<rparr>
          in Inr (duplicatedMeal,
                  clearUserCaches uid (st\<lparr>db := db st @ [duplicatedMeal]\<rparr>)))"

subsection \<open>Range statistics: the read and its cache (\<open>getRangeStatistics\<close>)\<close>

definition CACHE_DURATION :: int where
  "CACHE_DURATION = 5 * 60 * 1000"

text \<open>The cache check of a read, \<open>cached && Date.now() - cached.timestamp <
  CACHE_DURATION\<close>: the data of the entry under the key, when there is one and it is
  younger than five minutes.\<close>

definition cached_data :: "int \<Rightarrow> string \<Rightarrow> cache \<Rightarrow> payload option" where
  "cached_data now key entries =
     (case map_of entries key of
        None \<Rightarrow> None
      | Some cached \<Rightarrow>
          if now - entry_timestamp cached < CACHE_DURATION then Some (entry_data cached)
          else None)"

text \<open>\<open>cache.set(key, entry)\<close>: an entry under the key is replaced where it stands, a
  new key goes to the end.\<close>

definition cache_set :: "string \<Rightarrow> cache_entry \<Rightarrow> cache \<Rightarrow> cache" where
  "cache_set key entry entries = AList.update key entry entries"

text \<open>
  \<open>getRangeStatistics\<close>. \<open>now\<close> is \<open>Date.now()\<close>. The two dates arrive as texts; the
  parameter \<open>cal\<close> is the calendar of the host, which gives the day index of a date text
  and \<open>None\<close> for a text that is no date (the store then refuses the query and the call
  throws). A fresh entry under the key is returned as it is; otherwise the statistics are
  computed from the store, stored under the key with the current time and returned, for
  an empty query result as well.
\<close>

definition getRangeStatistics ::
  "(string \<Rightarrow> int option) \<Rightarrow> int \<Rightarrow> string \<Rightarrow> string \<Rightarrow> string \<Rightarrow> service
     \<Rightarrow> error + (payload \<times> service)" where
  "getRangeStatistics cal now userId startDate endDate st =
     (let cacheKey = stats_key userId startDate endDate in
      case cached_data now cacheKey (userStatsCache st) of
        Some cached \<Rightarrow> Inr (cached, st)
      | None \<Rightarrow>
          (case (cal startDate, cal endDate) of
             (Some d0, Some d1) \<Rightarrow>
               let found = findMany_range userId d0 d1 (db st);
                   statistics = rangeStatistics found startDate endDate
               in Inr (Statistics statistics,
                       st\<lparr>userStatsCache :=
                            cache_set cacheKey
                              \<lparr>entry_data = Statistics statistics, entry_timestamp = now\<rparr>
                              (userStatsCache st)\<rparr>)
           | _ \<Rightarrow> Inl InvalidDate))"

section \<open>Notions used to state the properties\<close>

text \<open>A value decides the resolution when it is a positive number or a string that
  parses as a number.\<close>

fun resolves :: "(string \<Rightarrow> rat option) \<Rightarrow> jsval \<Rightarrow> bool" where
  "resolves pf (JNum v) = (v > 0)"
| "resolves pf (JStr s) = (pf s \<noteq> None)"
| "resolves pf _ = False"





text \<open>What an operation returns, and the keys of the two caches once it has returned
  (the meals cache first).\<close>

definition returned :: "error + ('a \<times> service) \<Rightarrow> error + 'a" where
  "returned r = (case r of Inl e \<Rightarrow> Inl e | Inr (x, st') \<Rightarrow> Inr x)"

definition cache_keys_after :: "error + ('a \<times> service) \<Rightarrow> (string list \<times> string list) option" where
  "cache_keys_after r =
     (case r of
        Inl e \<Rightarrow> None
      | Inr (x, st') \<Rightarrow> Some (map fst (mealsCache st'), map fst (userStatsCache st')))"

text \<open>The additives object of the meal an owner addresses, and its favorite flag.\<close>

definition stored_additives :: "service \<Rightarrow> int \<Rightarrow> string \<Rightarrow> obj option" where
  "stored_additives st mid uid =
     map_option (\<lambda>m. asJsonObject (additives_json m)) (findFirst mid uid (db st))"

definition stored_favorite :: "service \<Rightarrow> int \<Rightarrow> string \<Rightarrow> jsval option" where
  "stored_favorite st mid uid =
     map_option (\<lambda>ob. get_prop ob ''isFavorite'') (stored_additives st mid uid)"

text \<open>The sum of the stored values of a field, the sum of what the resolver would give
  for it, and the sum of a field over the meals of a daily breakdown.\<close>

definition raw_total :: "meal list \<Rightarrow> string \<Rightarrow> rat" where
  "raw_total rows field = (\<Sum>m\<leftarrow>rows. field_or_0 (nutrients m) field)"

definition resolved_total :: "(string \<Rightarrow> rat option) \<Rightarrow> meal list \<Rightarrow> string \<Rightarrow> rat" where
  "resolved_total pf rows field =
     (\<Sum>m\<leftarrow>rows. getNutritionValue pf (Some (meal_record m)) field)"

definition breakdown_total :: "day_entry list \<Rightarrow> string \<Rightarrow> rat" where
  "breakdown_total days field = (\<Sum>e\<leftarrow>days. \<Sum>x\<leftarrow>meals e. summary_field x field)"

text \<open>The day of a meal, the days of a list of meals in the order they first occur, and
  the entry of a day.\<close>

definition day_of :: "meal \<Rightarrow> int" where
  "day_of m = iso_day (created_at m)"

definition first_days :: "meal list \<Rightarrow> int list" where
  "first_days rows = rev (remdups (rev (map day_of rows)))"

definition day_entry_of :: "meal list \<Rightarrow> int \<Rightarrow> day_entry" where
  "day_entry_of rows d = \<lparr>date = d, meals = map summary (filter (\<lambda>m. day_of m = d) rows)\<rparr>"

text \<open>The statistics a read has returned.\<close>

definition computed_statistics :: "error + (payload \<times> service) \<Rightarrow> range_statistics option" where
  "computed_statistics r =
     (case r of
        Inr (Statistics stats, st') \<Rightarrow> Some stats
      | _ \<Rightarrow> None)"

text \<open>The state an operation leaves when it returns.\<close>

definition state_after :: "error + ('a \<times> service) \<Rightarrow> service option" where
  "state_after r = (case r of Inl e \<Rightarrow> None | Inr (x, st') \<Rightarrow> Some st')"

text \<open>A figure and the daily breakdown of the statistics a read has returned.\<close>

definition reported :: "range_statistics option \<Rightarrow> string \<Rightarrow> rat option" where
  "reported r key = (case r of Some stats \<Rightarrow> map_of (figures stats) key | None \<Rightarrow> None)"

definition breakdown_of :: "range_statistics option \<Rightarrow> day_entry list" where
  "breakdown_of r = (case r of Some stats \<Rightarrow> dailyBreakdown stats | None \<Rightarrow> [])"

subsection \<open>Concrete states\<close>

definition some_entry :: cache_entry where
  "some_entry = \<lparr>entry_data = Other JNull, entry_timestamp = 0\<rparr>"

text \<open>A user with one stored meal, whose favorite flag is the number 1, and one entry in
  each cache.\<close>

definition toast :: meal where
  "toast =
     \<lparr>meal_id = 1, user_id = ''u1'', image_url = Some ''data:image/jpeg;base64,QUJD'',
      upload_time = 0, created_at = 0, updated_at = 0, meal_name = ''Toast'',
      meal_period = ''breakfast'', nutrients = [(''calories'', 120)],
      additives_json =
        JObj [(''isFavorite'', JNum 1),
              (''feedback'', JObj [(''tasteRating'', JNum 3), (''energyRating'', JNum 2)])],
      ingredients = JArr [], details = []\<rparr>"

definition populated :: service where
  "populated =
     \<lparr>userStatsCache = [(stats_key ''u1'' ''2024-01-01'' ''2024-01-31'', some_entry)],
      mealsCache = [(meals_key ''u1'' ''0'' ''100'', some_entry)],
      db = [toast]\<rparr>"

definition egg_data :: obj where
  "egg_data = [(''name'', JStr ''Egg''), (''calories'', JNum 90)]"

text \<open>Two owners, the id of one a part of the id of the other.\<close>

definition two_owners :: service where
  "two_owners =
     \<lparr>userStatsCache =
        [(stats_key ''u1'' ''2024-01-01'' ''2024-01-31'', some_entry),
         (stats_key ''u12'' ''2024-01-01'' ''2024-01-31'', some_entry)],
      mealsCache =
        [(meals_key ''u1'' ''0'' ''100'', some_entry),
         (meals_key ''u12'' ''0'' ''100'', some_entry)],
      db = []\<rparr>"

text \<open>Stored meals: three of user \<open>u1\<close> on day 0 and one on day 1, one of another user
  and one outside the range; and a single meal with fractional values.\<close>

definition stored :: "int \<Rightarrow> string \<Rightarrow> int \<Rightarrow> (string \<times> rat) list \<Rightarrow> meal" where
  "stored i uid t cols =
     \<lparr>meal_id = i, user_id = uid, image_url = None, upload_time = t, created_at = t,
      updated_at = t, meal_name = ''Meal'', meal_period = ''other'', nutrients = cols,
      additives_json = JObj [], ingredients = JArr [], details = []\<rparr>"

definition four_meals :: "meal list" where
  "four_meals =
     [stored 1 ''u1'' 1000 [(''calories'', 100)],
      stored 2 ''u1'' 2000 [(''calories'', 50)],
      stored 3 ''u1'' 3000 [(''calories'', 60)],
      stored 4 ''u1'' 86401000 [(''calories'', 90)],
      stored 5 ''u2'' 4000 [(''calories'', 700)],
      stored 6 ''u1'' 172800000 [(''calories'', 800)]]"

definition fraction_meals :: "meal list" where
  "fraction_meals = [stored 1 ''u1'' 1000 [(''calories'', 1 / 8), (''protein_g'', 5 / 2)]]"

text \<open>Four meals of 200 calories in all over three days; and 0.125 calories over two
  days.\<close>

definition uneven_meals :: "meal list" where
  "uneven_meals =
     [stored 1 ''u1'' 1000 [(''calories'', 100)],
      stored 2 ''u1'' 2000 [(''calories'', 50)],
      stored 3 ''u1'' 86401000 [(''calories'', 25)],
      stored 4 ''u1'' 172801000 [(''calories'', 25)]]"

definition eighth_meals :: "meal list" where
  "eighth_meals =
     [stored 1 ''u1'' 1000 [(''calories'', 1 / 8)],
      stored 2 ''u1'' 86401000 [(''calories'', 0)]]"

text \<open>The calendar on the first three days of 1970, and a read at time 0 from a store
  with empty caches.\<close>

definition january_1970 :: "string \<Rightarrow> int option" where
  "january_1970 = map_of [(''1970-01-01'', 0), (''1970-01-02'', 1), (''1970-01-03'', 2)]"

definition store_of :: "meal list \<Rightarrow> service" where
  "store_of rows = \<lparr>userStatsCache = [], mealsCache = [], db = rows\<rparr>"

definition read_statistics :: "meal list \<Rightarrow> string \<Rightarrow> string \<Rightarrow> string \<Rightarrow> range_statistics option" where
  "read_statistics rows userId startDate endDate =
     computed_statistics (getRangeStatistics january_1970 0 userId startDate endDate (store_of rows))"




section \<open>Verified properties\<close>

subsection \<open>The resolver\<close>

lemma js_round_nearest: "\<bar>js_round v - v\<bar> \<le> 1 / 2"
proof -
  have "of_int \<lfloor>v + 1 / 2\<rfloor> \<le> v + 1 / 2"
    by (rule of_int_floor_le)
  moreover have "v + 1 / 2 < of_int \<lfloor>v + 1 / 2\<rfloor> + 1"
    by linarith
  ultimately show ?thesis
    unfolding js_round_def by linarith
qed

text \<open>
  C5. A record that holds the queried field under its exact name with a positive number
  resolves to that number rounded to the nearest integer, whatever else the record holds
  under other spellings: the exact name is the first candidate.
\<close>

theorem exact_name_first:
  assumes "map_of data field = Some (JNum v)" and "v > 0"
  shows "getNutritionValue pf (Some data) field = js_round v
         \<and> \<bar>js_round v - v\<bar> \<le> 1 / 2"
  using assms js_round_nearest [of v]
  by (simp add: getNutritionValue_def variations_def get_prop_def)

theorem exact_name_first_witness:
  "map_of [(''protein'', JNum 99), (''protein_g'', JNum (5 / 2))] ''protein_g''
     = Some (JNum (5 / 2))
   \<and> (5 / 2 :: rat) > 0
   \<and> getNutritionValue parseFloat
        (Some [(''protein'', JNum 99), (''protein_g'', JNum (5 / 2))]) ''protein_g'' = 3"
proof -
  have h1: "map_of [(''protein'', JNum 99), (''protein_g'', JNum (5 / 2))] ''protein_g''
              = Some (JNum (5 / 2))"
    by simp
  have h2: "(5 / 2 :: rat) > 0"
    by simp
  have r: "js_round (5 / 2) = 3"
    by code_simp
  from exact_name_first [OF h1 h2, of parseFloat] r h1 h2 show ?thesis
    by simp
qed

lemma get_prop_delete:
  "get_prop (AList.delete c rec) k = (if k = c then JUndefined else get_prop rec k)"
  by (simp add: get_prop_def delete_conv')

lemma resolve_variations_delete:
  assumes "get_prop rec c = JNum v" and "v \<le> 0"
  shows "resolve_variations pf (AList.delete c rec) cs = resolve_variations pf rec cs"
proof (induction cs)
  case Nil
  show ?case by simp
next
  case (Cons k cs)
  show ?case
  proof (cases "k = c")
    case True
    with assms Cons.IH show ?thesis
      by (simp add: get_prop_delete)
  next
    case False
    with Cons.IH show ?thesis
      by (simp add: get_prop_delete split: jsval.split option.split)
  qed
qed

lemma resolve_variations_none:
  assumes "\<forall>c \<in> set cs. \<not> resolves pf (get_prop rec c)"
  shows "resolve_variations pf rec cs = 0"
  using assms
proof (induction cs)
  case Nil
  show ?case by simp
next
  case (Cons k cs)
  then have nk: "\<not> resolves pf (get_prop rec k)"
    and rest: "resolve_variations pf rec cs = 0"
    by simp_all
  from nk show ?case
    by (cases "get_prop rec k") (simp_all add: rest)
qed

text \<open>
  For numbers the resolver does what C3 says. A candidate that holds a zero or negative
  number counts as absent: the record resolves as the record without that property does,
  so the next candidates are tried. When no candidate holds a positive number or a
  numeric string the result is 0, as it is for a missing record; the function has no
  failing branch.
\<close>

lemma nonpositive_number_is_absent:
  "(get_prop rec c = JNum v \<and> v \<le> 0 \<longrightarrow>
      getNutritionValue pf (Some rec) field
        = getNutritionValue pf (Some (AList.delete c rec)) field)
   \<and> ((\<forall>k \<in> set (variations field). \<not> resolves pf (get_prop rec k)) \<longrightarrow>
      getNutritionValue pf (Some rec) field = 0)
   \<and> getNutritionValue pf None field = 0"
proof (intro conjI impI)
  assume "get_prop rec c = JNum v \<and> v \<le> 0"
  then show "getNutritionValue pf (Some rec) field
               = getNutritionValue pf (Some (AList.delete c rec)) field"
    by (simp add: getNutritionValue_def resolve_variations_delete)
next
  assume "\<forall>k \<in> set (variations field). \<not> resolves pf (get_prop rec k)"
  then show "getNutritionValue pf (Some rec) field = 0"
    by (simp add: getNutritionValue_def resolve_variations_none)
next
  show "getNutritionValue pf None field = 0"
    by (simp add: getNutritionValue_def)
qed

text \<open>
  C3, evaluated where the code departs from it. The number branch of the resolver skips
  a value that is not positive; the string branch has no such guard. A record holds the
  string \<open>"0"\<close> under \<open>protein_g\<close> and the number 6 under \<open>protein\<close>: the zero is not
  treated as absent, the code returns 0 and not the 6 it returns when \<open>protein_g\<close> is
  absent or holds the number 0. With the string \<open>"-5"\<close> it returns the negative value
  \<open>-5\<close>, where the number \<open>-5\<close> gives 6.
\<close>

theorem numeric_string_not_skipped:
  "parseFloat ''0'' = Some 0
   \<and> getNutritionValue parseFloat
        (Some [(''protein_g'', JStr ''0''), (''protein'', JNum 6)]) ''protein_g'' = 0
   \<and> getNutritionValue parseFloat
        (Some [(''protein_g'', JNum 0), (''protein'', JNum 6)]) ''protein_g'' = 6
   \<and> getNutritionValue parseFloat (Some [(''protein'', JNum 6)]) ''protein_g'' = 6
   \<and> parseFloat ''-5'' = Some (- 5)
   \<and> getNutritionValue parseFloat
        (Some [(''protein_g'', JStr ''-5''), (''protein'', JNum 6)]) ''protein_g'' = - 5
   \<and> getNutritionValue parseFloat
        (Some [(''protein_g'', JNum (- 5)), (''protein'', JNum 6)]) ''protein_g'' = 6"
  by code_simp

subsection \<open>Meal totals\<close>





subsection \<open>Cache invalidation\<close>

lemma str_includes_sublist: "str_includes s sub = sublist sub s"
  by (induction s) (simp_all add: sublist_Cons_right)

lemma fold_delete_filter:
  "fold AList.delete ks al = filter (\<lambda>(k, v). k \<notin> set ks) al"
proof (induction ks arbitrary: al)
  case Nil
  show ?case by simp
next
  case (Cons k ks)
  show ?case
    unfolding fold_Cons o_apply Cons.IH
    by (auto simp: AList.delete_eq case_prod_unfold intro: filter_cong)
qed

lemma delete_collected_keys:
  "fold AList.delete (filter (\<lambda>key. str_includes key uid) (map fst al)) al
     = filter (\<lambda>(key, entry). \<not> sublist uid key) al"
proof -
  have "filter (\<lambda>(k, v). k \<notin> set (filter (\<lambda>key. sublist uid key) (map fst al))) al
          = filter (\<lambda>(key, entry). \<not> sublist uid key) al"
    by (rule filter_cong) (auto simp: rev_image_eqI)
  then show ?thesis
    by (simp add: fold_delete_filter str_includes_sublist)
qed

lemma db_clearUserCaches: "db (clearUserCaches uid st) = db st"
  by (simp add: clearUserCaches_def Let_def)

text \<open>
  C8, as the code has it. Invalidation for an owner id removes from its cache exactly the
  entries whose key contains the id as a contiguous part, and leaves every entry whose key
  does not contain it as it was, in place and order; the other cache and the store are
  not touched. A key of another owner stays when the id does not occur in it.
\<close>

theorem invalidation_by_substring:
  "userStatsCache (clearUserCaches uid st)
     = filter (\<lambda>(key, entry). \<not> sublist uid key) (userStatsCache st)
   \<and> mealsCache (clearUserCaches uid st) = mealsCache st
   \<and> db (clearUserCaches uid st) = db st
   \<and> mealsCache (clearUserMealsCaches uid st)
     = filter (\<lambda>(key, entry). \<not> sublist uid key) (mealsCache st)
   \<and> userStatsCache (clearUserMealsCaches uid st) = userStatsCache st
   \<and> db (clearUserMealsCaches uid st) = db st"
  by (simp add: clearUserCaches_def clearUserMealsCaches_def Let_def delete_collected_keys)

theorem invalidation_by_substring_witness:
  "userStatsCache (clearUserCaches ''u12'' two_owners)
     = [(stats_key ''u1'' ''2024-01-01'' ''2024-01-31'', some_entry)]
   \<and> mealsCache (clearUserMealsCaches ''u12'' two_owners)
     = [(meals_key ''u1'' ''0'' ''100'', some_entry)]"
proof -
  have s: "filter (\<lambda>(key, entry). \<not> sublist ''u12'' key) (userStatsCache two_owners)
             = [(stats_key ''u1'' ''2024-01-01'' ''2024-01-31'', some_entry)]"
    unfolding str_includes_sublist [symmetric] by code_simp
  have m: "filter (\<lambda>(key, entry). \<not> sublist ''u12'' key) (mealsCache two_owners)
             = [(meals_key ''u1'' ''0'' ''100'', some_entry)]"
    unfolding str_includes_sublist [symmetric] by code_simp
  from invalidation_by_substring [of "''u12''" two_owners] s m show ?thesis
    by simp
qed

text \<open>
  C8 as stated fails when one owner id occurs in a key of another owner: with owners
  \<open>u1\<close> and \<open>u12\<close>, invalidation for \<open>u1\<close> also removes the entries stored for \<open>u12\<close>.
\<close>

theorem invalidation_hits_other_owner:
  "map_of (userStatsCache two_owners) (stats_key ''u12'' ''2024-01-01'' ''2024-01-31'')
     = Some some_entry
   \<and> map_of (userStatsCache (clearUserCaches ''u1'' two_owners))
        (stats_key ''u12'' ''2024-01-01'' ''2024-01-31'') = None
   \<and> map_of (mealsCache two_owners) (meals_key ''u12'' ''0'' ''100'') = Some some_entry
   \<and> map_of (mealsCache (clearUserMealsCaches ''u1'' two_owners))
        (meals_key ''u12'' ''0'' ''100'') = None"
  by code_simp

subsection \<open>Mutations and the caches\<close>

lemma saveMeal_keeps_caches:
  assumes "saveMeal now uid mealData imageBase64 st = Inr (created, st')"
  shows "userStatsCache st' = userStatsCache st \<and> mealsCache st' = mealsCache st"
  using assms by (auto simp: saveMeal_def Let_def split: option.splits)

text \<open>
  C1, evaluated. In a state where the user \<open>u1\<close> has an entry in each cache, every one
  of the five mutations returns successfully, and afterwards: \<open>saveMeal\<close> has left both
  entries; \<open>updateMeal\<close> has removed the meals entry and left the statistics entry;
  \<open>saveMealFeedback\<close>, \<open>toggleMealFavorite\<close> and \<open>duplicateMeal\<close> have removed the
  statistics entry and left the meals entry.
\<close>

theorem mutations_leave_cache_entries:
  "cache_keys_after (saveMeal 5 ''u1'' egg_data None populated)
     = Some ([meals_key ''u1'' ''0'' ''100''], [stats_key ''u1'' ''2024-01-01'' ''2024-01-31''])
   \<and> cache_keys_after (updateMeal 5 (Inr egg_data) ''u1'' 1 populated)
     = Some ([], [stats_key ''u1'' ''2024-01-01'' ''2024-01-31''])
   \<and> cache_keys_after (saveMealFeedback ''t'' ''u1'' 1 [(''tasteRating'', JNum 5)] populated)
     = Some ([meals_key ''u1'' ''0'' ''100''], [])
   \<and> cache_keys_after (toggleMealFavorite ''t'' ''u1'' 1 populated)
     = Some ([meals_key ''u1'' ''0'' ''100''], [])
   \<and> cache_keys_after (duplicateMeal 5 ''u1'' 1 (Some 86400000) populated)
     = Some ([meals_key ''u1'' ''0'' ''100''], [])"
  by code_simp

subsection \<open>Feedback and favorite\<close>

lemma map_of_spread:
  "map_of (spread base ext) k =
     (case map_of (rev ext) k of Some v \<Rightarrow> Some v | None \<Rightarrow> map_of base k)"
proof (induction ext arbitrary: base)
  case Nil
  show ?case by (simp add: spread_def)
next
  case (Cons p ext)
  obtain k' v where p: "p = (k', v)" by (cases p)
  have "spread base (p # ext) = spread (AList.update k' v base) ext"
    by (simp add: spread_def p)
  then show ?case
    by (simp add: Cons.IH p update_conv' map_add_def split: option.split)
qed

lemma map_of_rev_distinct:
  assumes "distinct (map fst xs)"
  shows "map_of (rev xs) = map_of xs"
proof -
  have "distinct (map fst (rev xs))"
    using assms by (simp add: rev_map [symmetric])
  moreover have "set (rev xs) = set xs"
    by simp
  ultimately show ?thesis
    using assms map_of_inject_set by blast
qed

lemma find_map_preserved:
  assumes "\<And>x. P (f x) = P x"
  shows "List.find P (map f xs) = map_option f (List.find P xs)"
  by (induction xs) (simp_all add: assms)

lemma findFirst_update_meal:
  assumes "\<And>r. meal_id (f r) = meal_id r" and "\<And>r. user_id (f r) = user_id r"
  shows "findFirst mid uid (update_meal i f rows)
           = map_option (\<lambda>r. if meal_id r = i then f r else r) (findFirst mid uid rows)"
  unfolding findFirst_def update_meal_def
  by (rule find_map_preserved) (simp add: assms)

lemma findFirst_key:
  "findFirst mid uid rows = Some m \<Longrightarrow> meal_id m = mid \<and> user_id m = uid"
  by (auto simp: findFirst_def find_Some_iff)

text \<open>
  C9. For a meal the owner holds, \<open>saveMealFeedback\<close> returns the meal id and the
  feedback and writes back the additives object with only its \<open>feedback\<close> property
  changed: every other key keeps its value. In the new feedback object \<open>updatedAt\<close> is
  the stamp, every other key named in the supplied feedback has the supplied value, and
  every other key of the existing feedback keeps its value. No other column and no other
  row changes.
\<close>

theorem feedback_is_merged:
  assumes "stored_additives st mid uid = Some additives"
    and "distinct (map fst feedback)"
  shows "\<exists>st' additives' fb'.
       saveMealFeedback now uid mid feedback st = Inr ((mid, feedback), st')
     \<and> db st' = update_meal mid (\<lambda>r. r\<lparr>additives_json := JObj additives'\<rparr>) (db st)
     \<and> stored_additives st' mid uid = Some additives'
     \<and> (\<forall>k. k \<noteq> ''feedback'' \<longrightarrow> map_of additives' k = map_of additives k)
     \<and> map_of additives' ''feedback'' = Some (JObj fb')
     \<and> map_of fb' ''updatedAt'' = Some (JStr now)
     \<and> (\<forall>k. k \<noteq> ''updatedAt'' \<longrightarrow>
           map_of fb' k =
             (case map_of feedback k of
                Some v \<Rightarrow> Some v
              | None \<Rightarrow> map_of (asJsonObject (get_prop additives ''feedback'')) k))"
proof -
  from assms(1) obtain m where m: "findFirst mid uid (db st) = Some m"
    and additives: "additives = asJsonObject (additives_json m)"
    by (auto simp: stored_additives_def)
  let ?existing = "asJsonObject (get_prop additives ''feedback'')"
  let ?fb = "spread (spread ?existing feedback) [(''updatedAt'', JStr now)]"
  let ?new = "spread additives [(''feedback'', JObj ?fb)]"
  let ?st' = "clearUserCaches uid
                (st\<lparr>db := update_meal mid (\<lambda>r. r\<lparr>additives_json := JObj ?new\<rparr>) (db st)\<rparr>)"
  have key: "meal_id m = mid"
    using m findFirst_key by blast
  have run: "saveMealFeedback now uid mid feedback st = Inr ((mid, feedback), ?st')"
    by (simp add: saveMealFeedback_def m Let_def key additives)
  have rows: "db ?st' = update_meal mid (\<lambda>r. r\<lparr>additives_json := JObj ?new\<rparr>) (db st)"
    by (simp add: db_clearUserCaches)
  have "findFirst mid uid (db ?st') = Some (m\<lparr>additives_json := JObj ?new\<rparr>)"
    by (simp add: db_clearUserCaches findFirst_update_meal m key)
  then have kept: "stored_additives ?st' mid uid = Some ?new"
    by (simp add: stored_additives_def asJsonObject_def)
  have a1: "\<forall>k. k \<noteq> ''feedback'' \<longrightarrow> map_of ?new k = map_of additives k"
    by (simp add: map_of_spread)
  have a2: "map_of ?new ''feedback'' = Some (JObj ?fb)"
    by (simp add: map_of_spread)
  have f1: "map_of ?fb ''updatedAt'' = Some (JStr now)"
    by (simp add: map_of_spread)
  have f2: "\<forall>k. k \<noteq> ''updatedAt'' \<longrightarrow>
              map_of ?fb k =
                (case map_of feedback k of Some v \<Rightarrow> Some v | None \<Rightarrow> map_of ?existing k)"
    by (simp add: map_of_spread map_of_rev_distinct [OF assms(2)])
  from run rows kept a1 a2 f1 f2 show ?thesis
    by blast
qed

theorem feedback_is_merged_witness:
  "stored_additives populated 1 ''u1''
     = Some [(''isFavorite'', JNum 1),
             (''feedback'', JObj [(''tasteRating'', JNum 3), (''energyRating'', JNum 2)])]
   \<and> distinct (map fst [(''tasteRating'', JNum 5)])
   \<and> (\<exists>st' additives' fb'.
         saveMealFeedback ''t'' ''u1'' 1 [(''tasteRating'', JNum 5)] populated
           = Inr ((1, [(''tasteRating'', JNum 5)]), st')
       \<and> stored_additives st' 1 ''u1'' = Some additives'
       \<and> map_of additives' ''isFavorite'' = Some (JNum 1)
       \<and> map_of additives' ''feedback'' = Some (JObj fb')
       \<and> map_of fb' ''updatedAt'' = Some (JStr ''t'')
       \<and> map_of fb' ''tasteRating'' = Some (JNum 5)
       \<and> map_of fb' ''energyRating'' = Some (JNum 2))"
proof -
  let ?additives = "[(''isFavorite'', JNum 1),
                     (''feedback'', JObj [(''tasteRating'', JNum 3), (''energyRating'', JNum 2)])]"
  have h1: "stored_additives populated 1 ''u1'' = Some ?additives"
    by code_simp
  have h2: "distinct (map fst [(''tasteRating'', JNum 5)])"
    by simp
  have e: "asJsonObject (get_prop ?additives ''feedback'')
             = [(''tasteRating'', JNum 3), (''energyRating'', JNum 2)]"
    by (simp add: asJsonObject_def get_prop_def)
  from feedback_is_merged [OF h1 h2, of "''t''"] obtain st' additives' fb' where
      r: "saveMealFeedback ''t'' ''u1'' 1 [(''tasteRating'', JNum 5)] populated
            = Inr ((1, [(''tasteRating'', JNum 5)]), st')"
    and k: "stored_additives st' 1 ''u1'' = Some additives'"
    and a1: "\<forall>k. k \<noteq> ''feedback'' \<longrightarrow> map_of additives' k = map_of ?additives k"
    and a2: "map_of additives' ''feedback'' = Some (JObj fb')"
    and f1: "map_of fb' ''updatedAt'' = Some (JStr ''t'')"
    and f2: "\<forall>k. k \<noteq> ''updatedAt'' \<longrightarrow>
               map_of fb' k =
                 (case map_of [(''tasteRating'', JNum 5)] k of
                    Some v \<Rightarrow> Some v
                  | None \<Rightarrow> map_of (asJsonObject (get_prop ?additives ''feedback'')) k)"
    by blast
  from a1 have "map_of additives' ''isFavorite'' = Some (JNum 1)"
    by simp
  moreover from f2 have "map_of fb' ''tasteRating'' = Some (JNum 5)"
    by simp
  moreover from f2 e have "map_of fb' ''energyRating'' = Some (JNum 2)"
    by simp
  ultimately show ?thesis
    using h1 h2 r k a2 f1 by blast
qed

lemma stored_favorite_toggle:
  assumes "stored_favorite st mid uid = Some flag"
  shows "\<exists>st'. toggleMealFavorite now uid mid st = Inr ((mid, \<not> truthy flag), st')
            \<and> stored_favorite st' mid uid = Some (JBool (\<not> truthy flag))"
proof -
  from assms obtain m where m: "findFirst mid uid (db st) = Some m"
    and flag: "flag = get_prop (asJsonObject (additives_json m)) ''isFavorite''"
    by (auto simp: stored_favorite_def stored_additives_def)
  have key: "meal_id m = mid"
    using m findFirst_key by blast
  let ?new = "spread (asJsonObject (additives_json m))
                [(''isFavorite'', JBool (\<not> truthy flag)), (''favoriteUpdatedAt'', JStr now)]"
  let ?st' = "clearUserCaches uid
                (st\<lparr>db := update_meal mid (\<lambda>r. r\<lparr>additives_json := JObj ?new\<rparr>) (db st)\<rparr>)"
  have run: "toggleMealFavorite now uid mid st = Inr ((mid, \<not> truthy flag), ?st')"
    by (simp add: toggleMealFavorite_def m Let_def key flag)
  have "findFirst mid uid (db ?st') = Some (m\<lparr>additives_json := JObj ?new\<rparr>)"
    by (simp add: db_clearUserCaches findFirst_update_meal m key)
  then have "stored_favorite ?st' mid uid = Some (JBool (\<not> truthy flag))"
    by (simp add: stored_favorite_def stored_additives_def asJsonObject_def get_prop_def
          map_of_spread)
  with run show ?thesis
    by blast
qed

text \<open>
  C10, as the code has it. For a meal the owner holds, \<open>toggleMealFavorite\<close> returns
  the negation of the truthiness of the stored flag (\<open>Boolean(additives.isFavorite)\<close>: a
  missing or falsy flag counts as false, every truthy value as true, boolean or not) and
  stores exactly that boolean. A second toggle returns the truthiness of the original flag
  and stores it: the original flag itself when that was a boolean.
\<close>

theorem favorite_toggles_truthiness:
  assumes "stored_favorite st mid uid = Some flag"
  shows "\<exists>st' st''.
           toggleMealFavorite now uid mid st = Inr ((mid, \<not> truthy flag), st')
         \<and> stored_favorite st' mid uid = Some (JBool (\<not> truthy flag))
         \<and> toggleMealFavorite now' uid mid st' = Inr ((mid, truthy flag), st'')
         \<and> stored_favorite st'' mid uid = Some (JBool (truthy flag))
         \<and> (\<forall>b. flag = JBool b \<longrightarrow> stored_favorite st'' mid uid = Some flag)"
proof -
  from stored_favorite_toggle [OF assms, of now] obtain st'
    where 1: "toggleMealFavorite now uid mid st = Inr ((mid, \<not> truthy flag), st')"
      and 2: "stored_favorite st' mid uid = Some (JBool (\<not> truthy flag))"
    by blast
  from stored_favorite_toggle [OF 2, of now'] obtain st''
    where 3: "toggleMealFavorite now' uid mid st' = Inr ((mid, truthy flag), st'')"
      and 4: "stored_favorite st'' mid uid = Some (JBool (truthy flag))"
    by auto
  from 4 have "\<forall>b. flag = JBool b \<longrightarrow> stored_favorite st'' mid uid = Some flag"
    by simp
  with 1 2 3 4 show ?thesis
    by blast
qed

theorem favorite_toggles_truthiness_witness:
  "stored_favorite populated 1 ''u1'' = Some (JNum 1)
   \<and> (\<exists>st' st''.
         toggleMealFavorite ''t'' ''u1'' 1 populated = Inr ((1, False), st')
       \<and> stored_favorite st' 1 ''u1'' = Some (JBool False)
       \<and> toggleMealFavorite ''t2'' ''u1'' 1 st' = Inr ((1, True), st'')
       \<and> stored_favorite st'' 1 ''u1'' = Some (JBool True))"
proof -
  have h: "stored_favorite populated 1 ''u1'' = Some (JNum 1)"
    by code_simp
  from favorite_toggles_truthiness [OF h, of "''t''" "''t2''"] h show ?thesis
    by simp
qed

text \<open>
  C10 as stated fails for a flag that is not a boolean but truthy. The stored flag is the
  number 1: it counts as true, and the toggle returns false.
\<close>

theorem truthy_flag_counts_as_favorite:
  "stored_favorite populated 1 ''u1'' = Some (JNum 1)
   \<and> returned (toggleMealFavorite ''t'' ''u1'' 1 populated) = Inr (1, False)"
  by code_simp

subsection \<open>Range statistics: the totals\<close>

lemma distinct_numericFields: "distinct numericFields"
  by (simp add: numericFields_def)

lemma totals_init_eq: "totals_init = map (\<lambda>f. (f, 0)) numericFields"
  by (simp add: totals_init_def numericFields_def)

lemma map_of_totals_add:
  "map_of (totals_add t f x)
     = (map_of t)(f \<mapsto> (case map_of t f of Some v \<Rightarrow> v | None \<Rightarrow> 0) + x)"
  by (simp add: totals_add_def update_conv' split: option.split)

lemma keys_totals_add:
  "f \<in> set (map fst t) \<Longrightarrow> map fst (totals_add t f x) = map fst t"
  by (simp add: totals_add_def update_keys split: option.split)

lemma fold_totals_add_keys:
  "set fs \<subseteq> set (map fst t) \<Longrightarrow>
     map fst (fold (\<lambda>field t. totals_add t field (g field)) fs t) = map fst t"
proof (induction fs arbitrary: t)
  case Nil
  show ?case by simp
next
  case (Cons f fs)
  from Cons.prems have f: "f \<in> set (map fst t)" and fs: "set fs \<subseteq> set (map fst t)"
    by simp_all
  have k: "map fst (totals_add t f (g f)) = map fst t"
    by (rule keys_totals_add [OF f])
  from fs have "set fs \<subseteq> set (map fst (totals_add t f (g f)))"
    by (simp only: k)
  from Cons.IH [OF this] show ?case
    by (simp add: k)
qed

lemma fold_totals_add_map_of:
  "distinct fs \<Longrightarrow>
     map_of (fold (\<lambda>field t. totals_add t field (g field)) fs t) k =
       (if k \<in> set fs then Some ((case map_of t k of Some v \<Rightarrow> v | None \<Rightarrow> 0) + g k)
        else map_of t k)"
proof (induction fs arbitrary: t)
  case Nil
  show ?case by simp
next
  case (Cons f fs)
  then show ?case
    by (auto simp: map_of_totals_add)
qed

lemma alist_by_keys:
  "distinct (map fst xs) \<Longrightarrow> xs = map (\<lambda>k. (k, the (map_of xs k))) (map fst xs)"
proof (induction xs)
  case Nil
  show ?case by simp
next
  case (Cons p xs)
  then have "xs = map (\<lambda>k. (k, the (map_of xs k))) (map fst xs)"
    by simp
  moreover have "map (\<lambda>k. (k, the (map_of xs k))) (map fst xs)
                   = map (\<lambda>k. (k, the (map_of (p # xs) k))) (map fst xs)"
    using Cons.prems by (intro map_cong) (auto simp: rev_image_eqI)
  ultimately show ?case
    by (cases p) simp
qed

text \<open>The two nested loops leave, for every field, the sum of the stored values.\<close>

lemma sum_totals_closed: "sum_totals rows = map (\<lambda>f. (f, raw_total rows f)) numericFields"
proof -
  have gen: "map fst t = numericFields \<Longrightarrow>
       map fst (fold add_meal rows t) = numericFields
       \<and> (\<forall>k \<in> set numericFields.
             map_of (fold add_meal rows t) k = Some (the (map_of t k) + raw_total rows k))" for t
  proof (induction rows arbitrary: t)
    case Nil
    then have "\<forall>k \<in> set numericFields. \<exists>v. map_of t k = Some v"
      by (metis (no_types) domD dom_map_of_conv_image_fst list.set_map)
    with Nil show ?case
      by (auto simp: raw_total_def)
  next
    case (Cons m rows)
    have keys: "map fst (add_meal m t) = numericFields"
      unfolding add_meal_def using Cons.prems by (simp add: fold_totals_add_keys)
    have vals: "\<forall>k \<in> set numericFields.
                  map_of (add_meal m t) k = Some (the (map_of t k) + field_or_0 (nutrients m) k)"
    proof
      fix k assume k: "k \<in> set numericFields"
      then obtain v where "map_of t k = Some v"
        using Cons.prems by (metis (no_types) domD dom_map_of_conv_image_fst list.set_map)
      with k show "map_of (add_meal m t) k
                     = Some (the (map_of t k) + field_or_0 (nutrients m) k)"
        unfolding add_meal_def by (simp add: fold_totals_add_map_of distinct_numericFields)
    qed
    from Cons.IH [OF keys] vals show ?case
      by (simp add: raw_total_def add.assoc)
  qed
  have init: "map fst totals_init = numericFields"
    by (simp add: totals_init_eq comp_def)
  from gen [OF init]
  have keys: "map fst (sum_totals rows) = numericFields"
    and vals: "\<forall>k \<in> set numericFields.
                 map_of (sum_totals rows) k = Some (the (map_of totals_init k) + raw_total rows k)"
    by (simp_all add: sum_totals_def)
  have zero: "\<forall>k \<in> set numericFields. map_of totals_init k = Some 0"
    by (simp add: totals_init_eq map_of_map_restrict)
  have "sum_totals rows
          = map (\<lambda>k. (k, the (map_of (sum_totals rows) k))) (map fst (sum_totals rows))"
    by (rule alist_by_keys) (simp add: keys distinct_numericFields)
  also have "\<dots> = map (\<lambda>f. (f, raw_total rows f)) numericFields"
    unfolding keys by (rule map_cong) (simp_all add: vals zero)
  finally show ?thesis .
qed

subsection \<open>Range statistics: the figures of the result\<close>

lemma update_fresh: "k \<notin> fst ` set al \<Longrightarrow> AList.update k v al = al @ [(k, v)]"
  by (induction al) auto

lemma spread_fresh:
  "distinct (map fst (base @ ext)) \<Longrightarrow> spread base ext = base @ ext"
proof (induction ext arbitrary: base)
  case Nil
  show ?case by (simp add: spread_def)
next
  case (Cons p ext)
  obtain k v where p: "p = (k, v)" by (cases p)
  from Cons.prems have fresh: "k \<notin> fst ` set base"
    by (auto simp: p)
  have step: "spread base (p # ext) = spread (base @ [(k, v)]) ext"
    by (simp add: spread_def p update_fresh [OF fresh])
  from Cons.prems have "distinct (map fst ((base @ [(k, v)]) @ ext))"
    by (simp add: p)
  from Cons.IH [OF this] step show ?case
    by (simp add: p)
qed

lemma fold_update_map:
  "fold (\<lambda>(key, val) acc. AList.update key (g val) acc) xs acc
     = spread acc (map (\<lambda>(key, val). (key, g val)) xs)"
  by (simp add: spread_def fold_map comp_def case_prod_unfold)

lemma total_key_eq [simp]: "total_key a = total_key b \<longleftrightarrow> a = b"
  by (simp add: total_key_def)

lemma average_key_eq [simp]: "average_key a = average_key b \<longleftrightarrow> a = b"
  by (simp add: average_key_def)

lemma total_not_average [simp]:
  "total_key a \<noteq> average_key b" "average_key b \<noteq> total_key a"
  by (simp_all add: total_key_def average_key_def)

lemma distinct_keys:
  "distinct (map total_key numericFields)" "distinct (map average_key numericFields)"
  using distinct_numericFields by (simp_all add: distinct_map inj_on_def)

lemma figures_closed:
  assumes "rows \<noteq> []"
  shows "figures (rangeStatistics rows startDate endDate) =
     map (\<lambda>f. (total_key f, round2 (raw_total rows f))) numericFields
     @ map (\<lambda>f. (average_key f,
                  round2 (raw_total rows f
                            / of_nat (length (remdups (map (\<lambda>m. iso_day (created_at m)) rows))))))
         numericFields"
proof -
  let ?n = "length (remdups (map (\<lambda>m. iso_day (created_at m)) rows))"
  let ?T = "map (\<lambda>f. (total_key f, round2 (raw_total rows f))) numericFields"
  let ?U = "map (\<lambda>f. (average_key f, raw_total rows f / of_nat ?n)) numericFields"
  let ?A = "map (\<lambda>f. (average_key f, round2 (raw_total rows f / of_nat ?n))) numericFields"
  have n: "?n > 0"
    using assms by simp
  have dT: "distinct (map fst ?T)" and dU: "distinct (map fst ?U)"
    and dA: "distinct (map fst ?A)"
    using distinct_keys by (simp_all add: comp_def)
  have disj: "set (map fst ?T) \<inter> set (map fst ?A) = {}"
    by auto
  have t: "spread [] (map (\<lambda>(key, val). (total_key key, round2 val)) (sum_totals rows)) = ?T"
    using dT by (simp add: sum_totals_closed comp_def spread_fresh)
  have u: "spread []
             (map (\<lambda>(key, val). (average_key key, if ?n > 0 then val / of_nat ?n else 0))
                (sum_totals rows)) = ?U"
    using dU n by (simp add: sum_totals_closed comp_def spread_fresh)
  have u': "spread [] (map (\<lambda>(key, val). (average_key key, val / of_nat ?n)) (sum_totals rows))
              = ?U"
    using u n by simp
  have a: "fold (\<lambda>(key, val) acc. AList.update key (round2 val) acc) ?U [] = ?A"
  proof -
    have "fold (\<lambda>(key, val) acc. AList.update key (round2 val) acc) ?U []
            = spread [] (map (\<lambda>(key, val). (key, round2 val)) ?U)"
      by (rule fold_update_map)
    also have "map (\<lambda>(key, val). (key, round2 val)) ?U = ?A"
      by (simp add: comp_def)
    also have "spread [] ?A = ?A"
      using dA by (simp add: spread_fresh)
    finally show ?thesis .
  qed
  have "spread ?T ?A = ?T @ ?A"
    using dT dA disj by (intro spread_fresh) (simp only: map_append distinct_append simp_thms)
  then show ?thesis
    using assms by (simp add: rangeStatistics_def Let_def t u u' a)
qed

lemma map_of_total_key:
  "map_of (map (\<lambda>f. (total_key f, h f)) fs) (total_key f)
     = (if f \<in> set fs then Some (h f) else None)"
  "map_of (map (\<lambda>f. (total_key f, h f)) fs) (average_key f) = None"
  by (induction fs) auto

lemma map_of_average_key:
  "map_of (map (\<lambda>f. (average_key f, h f)) fs) (average_key f)
     = (if f \<in> set fs then Some (h f) else None)"
  by (induction fs) auto

lemma figures_empty:
  assumes "f \<in> set numericFields"
  shows "map_of (figures emptyResult) (total_key f) = Some 0
         \<and> map_of (figures emptyResult) (average_key f) = Some 0"
proof -
  let ?pair = "\<lambda>field. [(total_key field, 0::rat), (average_key field, 0)]"
  have d: "distinct fs \<Longrightarrow> distinct (map fst (concat (map ?pair fs)))" for fs
    by (induction fs) auto
  have v: "f \<in> set fs \<Longrightarrow>
             map_of (concat (map ?pair fs)) (total_key f) = Some 0
             \<and> map_of (concat (map ?pair fs)) (average_key f) = Some 0" for fs
    by (induction fs) auto
  have "figures emptyResult = concat (map ?pair numericFields)"
    using d [OF distinct_numericFields] by (simp add: emptyResult_def spread_fresh)
  with v [OF assms] show ?thesis
    by simp
qed

lemma figures_lookup:
  assumes "rows \<noteq> []" and "f \<in> set numericFields"
  shows "map_of (figures (rangeStatistics rows startDate endDate)) (total_key f)
           = Some (round2 (raw_total rows f))"
    and "map_of (figures (rangeStatistics rows startDate endDate)) (average_key f)
           = Some (round2 (raw_total rows f
                     / of_nat (length (remdups (map (\<lambda>m. iso_day (created_at m)) rows)))))"
proof -
  show "map_of (figures (rangeStatistics rows startDate endDate)) (total_key f)
           = Some (round2 (raw_total rows f))"
    using assms(2) by (simp add: figures_closed [OF assms(1)] map_of_total_key map_add_def)
  show "map_of (figures (rangeStatistics rows startDate endDate)) (average_key f)
           = Some (round2 (raw_total rows f
                     / of_nat (length (remdups (map (\<lambda>m. iso_day (created_at m)) rows)))))"
    using assms(2)
    by (simp add: figures_closed [OF assms(1)] map_of_total_key map_of_average_key map_add_def)
qed

lemma round2_0: "round2 0 = 0"
  by code_simp

lemma total_of_range:
  assumes "f \<in> set numericFields"
  shows "map_of (figures (rangeStatistics found startDate endDate)) (total_key f)
           = Some (round2 (raw_total found f))"
proof (cases "found = []")
  case True
  then show ?thesis
    using figures_empty [OF assms] by (simp add: rangeStatistics_def raw_total_def round2_0)
next
  case False
  then show ?thesis
    using figures_lookup(1) [OF False assms] by simp
qed

text \<open>The two paths of the read. A fresh entry is returned as it is and nothing is
  computed or stored. Otherwise the statistics of the rows found in the store are
  returned and stored under the key.\<close>

lemma getRangeStatistics_hit:
  assumes "cached_data now (stats_key userId startDate endDate) (userStatsCache st) = Some cached"
  shows "getRangeStatistics cal now userId startDate endDate st = Inr (cached, st)"
  using assms by (simp add: getRangeStatistics_def Let_def)

lemma getRangeStatistics_miss:
  assumes "cached_data now (stats_key userId startDate endDate) (userStatsCache st) = None"
    and "cal startDate = Some d0" and "cal endDate = Some d1"
  shows "getRangeStatistics cal now userId startDate endDate st =
           Inr (Statistics (rangeStatistics (findMany_range userId d0 d1 (db st)) startDate endDate),
                st\<lparr>userStatsCache :=
                     cache_set (stats_key userId startDate endDate)
                       \<lparr>entry_data =
                          Statistics
                            (rangeStatistics (findMany_range userId d0 d1 (db st))
                               startDate endDate),
                        entry_timestamp = now\<rparr>
                       (userStatsCache st)\<rparr>)"
  using assms by (simp add: getRangeStatistics_def Let_def)

lemma computed_on_miss:
  assumes "cached_data now (stats_key userId startDate endDate) (userStatsCache st) = None"
    and "cal startDate = Some d0" and "cal endDate = Some d1"
  shows "computed_statistics (getRangeStatistics cal now userId startDate endDate st)
           = Some (rangeStatistics (findMany_range userId d0 d1 (db st)) startDate endDate)"
  by (simp add: getRangeStatistics_miss [OF assms] computed_statistics_def)

text \<open>
  C2, as the code has it. On a cache miss, for every tracked field the reported total is
  the sum of the stored values of the field over the meals of the range, a null value
  counting as 0, rounded to two decimals at the end. No resolver is applied: nothing is
  resolved through an alias and no contribution is rounded to an integer.
\<close>

theorem total_is_sum_of_stored_values:
  assumes "cached_data now (stats_key userId startDate endDate) (userStatsCache st) = None"
    and "cal startDate = Some d0" and "cal endDate = Some d1"
    and "f \<in> set numericFields"
  shows "\<exists>stats.
           computed_statistics (getRangeStatistics cal now userId startDate endDate st)
             = Some stats
         \<and> map_of (figures stats) (total_key f)
             = Some (round2 (raw_total (findMany_range userId d0 d1 (db st)) f))"
  using computed_on_miss [OF assms(1-3)] total_of_range [OF assms(4)] by simp

text \<open>One meal with 0.125 calories: the reported total is 0.13.\<close>

theorem total_is_sum_of_stored_values_witness:
  "cached_data 0 (stats_key ''u1'' ''1970-01-01'' ''1970-01-01'')
     (userStatsCache (store_of fraction_meals)) = None
   \<and> january_1970 ''1970-01-01'' = Some 0
   \<and> ''calories'' \<in> set numericFields
   \<and> raw_total (findMany_range ''u1'' 0 0 (db (store_of fraction_meals))) ''calories'' = 1 / 8
   \<and> reported (read_statistics fraction_meals ''u1'' ''1970-01-01'' ''1970-01-01'')
        (total_key ''calories'') = Some (13 / 100)"
proof -
  have h1: "cached_data 0 (stats_key ''u1'' ''1970-01-01'' ''1970-01-01'')
              (userStatsCache (store_of fraction_meals)) = None"
    by (simp add: cached_data_def store_of_def)
  have h2: "january_1970 ''1970-01-01'' = Some 0"
    by (simp add: january_1970_def)
  have h3: "''calories'' \<in> set numericFields"
    by (simp add: numericFields_def)
  have q: "raw_total (findMany_range ''u1'' 0 0 (db (store_of fraction_meals))) ''calories''
             = 1 / 8"
    by code_simp
  have r: "round2 (1 / 8) = 13 / 100"
    by code_simp
  from total_is_sum_of_stored_values
         [where cal = january_1970 and startDate = "''1970-01-01''"
            and endDate = "''1970-01-01''", OF h1 h2 h2 h3]
       h1 h2 h3 q r
  show ?thesis
    by (auto simp: read_statistics_def reported_def)
qed

text \<open>
  C2 as stated fails. One meal stores 2.5 under \<open>protein_g\<close>: the reported total is 2.5,
  the sum of the resolver over the meals is 3.
\<close>

theorem total_is_not_resolver_sum:
  "reported (read_statistics fraction_meals ''u1'' ''1970-01-01'' ''1970-01-01'')
     (total_key ''protein_g'') = Some (5 / 2)
   \<and> resolved_total parseFloat (findMany_range ''u1'' 0 0 fraction_meals) ''protein_g'' = 3"
  by code_simp

text \<open>
  C4, as the code has it. On a cache miss, when the range holds a meal, the reported
  average of a tracked field is the sum of its stored values divided by the number of
  distinct UTC days on which the meals of the range were created, rounded to two
  decimals; the reported total is that sum rounded to two decimals. The number of meals
  does not enter. Both figures are rounded once, from the unrounded sum: the reported
  average is not the reported total divided by the days.
\<close>

theorem average_over_distinct_days:
  assumes "cached_data now (stats_key userId startDate endDate) (userStatsCache st) = None"
    and "cal startDate = Some d0" and "cal endDate = Some d1"
    and "findMany_range userId d0 d1 (db st) \<noteq> []"
    and "f \<in> set numericFields"
  shows "\<exists>stats.
           computed_statistics (getRangeStatistics cal now userId startDate endDate st)
             = Some stats
         \<and> (let found = findMany_range userId d0 d1 (db st);
                 n = card ((\<lambda>m. iso_day (created_at m)) ` set found)
             in totalDays stats = n
              \<and> map_of (figures stats) (average_key f)
                  = Some (round2 (raw_total found f / of_nat n))
              \<and> map_of (figures stats) (total_key f) = Some (round2 (raw_total found f)))"
proof -
  let ?found = "findMany_range userId d0 d1 (db st)"
  have n: "length (remdups (map (\<lambda>m. iso_day (created_at m)) ?found))
             = card ((\<lambda>m. iso_day (created_at m)) ` set ?found)"
    by (simp add: length_remdups_card_conv)
  have "totalDays (rangeStatistics ?found startDate endDate)
          = length (remdups (map (\<lambda>m. iso_day (created_at m)) ?found))"
    using assms(4) by (simp add: rangeStatistics_def Let_def)
  with figures_lookup [OF assms(4,5)] n computed_on_miss [OF assms(1-3)] show ?thesis
    by (simp add: Let_def)
qed

text \<open>Two meals on one day and one on each of the next two, 200 calories in all: the
  average is 66.67, the total over the three days rounded, and not 50, the total over
  the four meals.\<close>

theorem average_over_distinct_days_witness:
  "cached_data 0 (stats_key ''u1'' ''1970-01-01'' ''1970-01-03'')
     (userStatsCache (store_of uneven_meals)) = None
   \<and> january_1970 ''1970-01-01'' = Some 0
   \<and> january_1970 ''1970-01-03'' = Some 2
   \<and> findMany_range ''u1'' 0 2 (db (store_of uneven_meals)) \<noteq> []
   \<and> ''calories'' \<in> set numericFields
   \<and> map_option totalMeals (read_statistics uneven_meals ''u1'' ''1970-01-01'' ''1970-01-03'')
       = Some 4
   \<and> map_option totalDays (read_statistics uneven_meals ''u1'' ''1970-01-01'' ''1970-01-03'')
       = Some 3
   \<and> reported (read_statistics uneven_meals ''u1'' ''1970-01-01'' ''1970-01-03'')
        (total_key ''calories'') = Some 200
   \<and> reported (read_statistics uneven_meals ''u1'' ''1970-01-01'' ''1970-01-03'')
        (average_key ''calories'') = Some (6667 / 100)"
proof -
  have h1: "cached_data 0 (stats_key ''u1'' ''1970-01-01'' ''1970-01-03'')
              (userStatsCache (store_of uneven_meals)) = None"
    by (simp add: cached_data_def store_of_def)
  have h2: "january_1970 ''1970-01-01'' = Some 0"
    by (simp add: january_1970_def)
  have h3: "january_1970 ''1970-01-03'' = Some 2"
    by (simp add: january_1970_def)
  have found: "findMany_range ''u1'' 0 2 (db (store_of uneven_meals)) = uneven_meals"
    by code_simp
  have h4: "findMany_range ''u1'' 0 2 (db (store_of uneven_meals)) \<noteq> []"
    unfolding found by (simp add: uneven_meals_def)
  have h5: "''calories'' \<in> set numericFields"
    by (simp add: numericFields_def)
  have m: "map_option totalMeals (read_statistics uneven_meals ''u1'' ''1970-01-01'' ''1970-01-03'')
             = Some 4"
    by code_simp
  have d: "card ((\<lambda>m. iso_day (created_at m)) ` set uneven_meals) = 3"
    by (simp add: uneven_meals_def stored_def iso_day_def)
  have q: "raw_total uneven_meals ''calories'' = 200"
    by code_simp
  have r: "round2 200 = 200" "round2 (200 / 3) = 6667 / 100"
    by code_simp+
  from average_over_distinct_days
         [where cal = january_1970 and startDate = "''1970-01-01''"
            and endDate = "''1970-01-03''", OF h1 h2 h3 h4 h5]
       h1 h2 h3 h4 h5 m d q r found
  show ?thesis
    by (auto simp: Let_def read_statistics_def reported_def)
qed

text \<open>
  C4 as stated fails: the reported average is not the reported total divided by the
  days. 0.125 calories over two days: the reported total is 0.13 and the reported average
  is 0.06, the rounded 0.0625, while 0.13 / 2 is 0.065.
\<close>

theorem average_is_not_total_by_days:
  "map_option totalDays (read_statistics eighth_meals ''u1'' ''1970-01-01'' ''1970-01-02'')
     = Some 2
   \<and> reported (read_statistics eighth_meals ''u1'' ''1970-01-01'' ''1970-01-02'')
        (total_key ''calories'') = Some (13 / 100)
   \<and> reported (read_statistics eighth_meals ''u1'' ''1970-01-01'' ''1970-01-02'')
        (average_key ''calories'') = Some (3 / 50)
   \<and> (3 / 50 :: rat) \<noteq> (13 / 100) / 2"
  by code_simp

subsection \<open>Range statistics: the daily breakdown\<close>

lemma first_days_snoc:
  "first_days (rows @ [x]) =
     (if day_of x \<in> set (first_days rows) then first_days rows
      else first_days rows @ [day_of x])"
  by (simp add: first_days_def)

lemma set_first_days: "set (first_days rows) = day_of ` set rows"
  by (simp add: first_days_def)

lemma distinct_first_days: "distinct (first_days rows)"
  by (simp add: first_days_def)

text \<open>The grouping gives one entry for each day, in the order the days first occur, and
  the entry of a day holds the summaries of the meals of that day, in their order.\<close>

lemma dailyData_closed: "dailyData rows = map (day_entry_of rows) (first_days rows)"
proof (induction rows rule: rev_induct)
  case Nil
  show ?case by (simp add: dailyData_def first_days_def)
next
  case (snoc x rows)
  have step: "dailyData (rows @ [x]) = group_meal x (dailyData rows)"
    by (simp add: dailyData_def)
  have dates: "map date (dailyData rows) = first_days rows"
    by (simp add: snoc.IH comp_def day_entry_of_def)
  show ?case
  proof (cases "day_of x \<in> set (first_days rows)")
    case True
    then show ?thesis
      unfolding step
      by (simp add: group_meal_def Let_def dates first_days_snoc snoc.IH day_entry_of_def
            day_of_def)
  next
    case False
    then have "filter (\<lambda>m. iso_day (created_at m) = iso_day (created_at x)) rows = []"
      by (auto simp: set_first_days filter_empty_conv day_of_def) (metis rev_image_eqI)
    with False show ?thesis
      unfolding step
      by (simp add: group_meal_def Let_def dates first_days_snoc snoc.IH day_entry_of_def
            day_of_def)
  qed
qed

lemma mset_filter_split:
  assumes "\<And>x. \<not> (P x \<and> Q x)"
  shows "mset (filter P xs) + mset (filter Q xs) = mset (filter (\<lambda>x. P x \<or> Q x) xs)"
  using assms by (induction xs) auto

lemma mset_concat_days:
  assumes "distinct ds"
  shows "mset (concat (map (\<lambda>d. filter (\<lambda>m. day_of m = d) rows) ds))
           = mset (filter (\<lambda>m. day_of m \<in> set ds) rows)"
  using assms
proof (induction ds)
  case Nil
  show ?case by simp
next
  case (Cons d ds)
  then have "mset (concat (map (\<lambda>d. filter (\<lambda>m. day_of m = d) rows) (d # ds)))
               = mset (filter (\<lambda>m. day_of m = d) rows)
                 + mset (filter (\<lambda>m. day_of m \<in> set ds) rows)"
    by simp
  also have "\<dots> = mset (filter (\<lambda>m. day_of m = d \<or> day_of m \<in> set ds) rows)"
    using Cons.prems by (intro mset_filter_split) auto
  finally show ?case
    by (simp add: disj_commute eq_commute)
qed

lemma mset_dailyData: "mset (concat (map meals (dailyData rows))) = mset (map summary rows)"
proof -
  have "concat (map meals (dailyData rows))
          = map summary (concat (map (\<lambda>d. filter (\<lambda>m. day_of m = d) rows) (first_days rows)))"
    by (simp add: dailyData_closed day_entry_of_def comp_def map_concat)
  moreover have "mset (concat (map (\<lambda>d. filter (\<lambda>m. day_of m = d) rows) (first_days rows)))
                   = mset rows"
    by (simp add: mset_concat_days distinct_first_days set_first_days)
  ultimately show ?thesis
    by (metis mset_map)
qed

lemma mset_concat_perm:
  assumes "mset xs = mset ys"
  shows "mset (concat (map f xs)) = mset (concat (map f ys))"
proof -
  have "mset (concat (map f zs)) = \<Sum>\<^sub># (image_mset (\<lambda>z. mset (f z)) (mset zs))" for zs
    by (induction zs) simp_all
  with assms show ?thesis
    by simp
qed

lemma breakdown_facts:
  fixes rows :: "meal list"
  defines "B \<equiv> sort_key date (dailyData rows)"
  shows "mset (concat (map meals B)) = mset (map summary rows)"
    and "\<forall>e \<in> set B. meals e \<noteq> []
           \<and> (\<forall>x \<in> set (meals e). iso_day (s_created_at x) = date e)"
    and "distinct (map date B)" and "sorted (map date B)"
proof -
  have perm: "mset B = mset (dailyData rows)"
    by (simp add: B_def)
  show "mset (concat (map meals B)) = mset (map summary rows)"
    using mset_concat_perm [OF perm, of meals] by (simp only: mset_dailyData)
  have setB: "set B = day_entry_of rows ` day_of ` set rows"
    by (simp add: B_def dailyData_closed set_first_days)
  show "\<forall>e \<in> set B. meals e \<noteq> []
          \<and> (\<forall>x \<in> set (meals e). iso_day (s_created_at x) = date e)"
    by (auto simp: setB day_entry_of_def summary_def day_of_def filter_empty_conv)
  have "map date (dailyData rows) = first_days rows"
    by (simp add: dailyData_closed comp_def day_entry_of_def)
  then have "mset (map date B) = mset (first_days rows)"
    by (metis B_def mset_map mset_sort)
  then show "distinct (map date B)"
    using distinct_first_days mset_eq_imp_distinct_iff by blast
  show "sorted (map date B)"
    by (simp add: B_def)
qed

lemma summary_field_summary:
  assumes "f \<in> set numericFields"
  shows "summary_field (summary m) f = field_or_0 (nutrients m) f"
proof -
  have "map_of (List.map_filter (\<lambda>field. map_option (Pair field) (map_of cols field)) fs) f
          = (if f \<in> set fs then map_of cols f else None)"
    for fs and cols :: "(string \<times> rat) list"
    by (induction fs) (auto simp: List.map_filter_simps split: option.split)
  with assms show ?thesis
    by (simp add: summary_field_def summary_def field_or_0_def num_or_def split: option.split)
qed

lemma sum_list_concat_map:
  "sum_list (map g (concat xss)) = (\<Sum>xs\<leftarrow>xss. sum_list (map g xs))"
  by (induction xss) simp_all

lemma breakdown_sum:
  assumes "f \<in> set numericFields"
  shows "breakdown_total (sort_key date (dailyData rows)) f = raw_total rows f"
proof -
  let ?B = "sort_key date (dailyData rows)"
  have "breakdown_total ?B f = sum_list (map (\<lambda>x. summary_field x f) (concat (map meals ?B)))"
    by (simp add: breakdown_total_def sum_list_concat_map comp_def)
  also have "\<dots> = \<Sum>\<^sub># (image_mset (\<lambda>x. summary_field x f) (mset (concat (map meals ?B))))"
    by (metis mset_map sum_mset_sum_list)
  also have "\<dots> = \<Sum>\<^sub># (image_mset (\<lambda>x. summary_field x f) (mset (map summary rows)))"
    by (simp only: breakdown_facts(1))
  also have "\<dots> = sum_list (map (\<lambda>x. summary_field x f) (map summary rows))"
    by (metis mset_map sum_mset_sum_list)
  also have "\<dots> = raw_total rows f"
    using assms by (simp add: raw_total_def comp_def summary_field_summary)
  finally show ?thesis .
qed

lemma breakdown_of_range:
  "let stats = rangeStatistics (findMany_range userId d0 d1 rows) startDate endDate;
       days = dailyBreakdown stats
   in mset (concat (map meals days))
        = mset (map summary (filter (in_range userId d0 d1) rows))
    \<and> (\<forall>e \<in> set days. meals e \<noteq> []
          \<and> (\<forall>x \<in> set (meals e). iso_day (s_created_at x) = date e))
    \<and> distinct (map date days) \<and> sorted (map date days)
    \<and> (\<forall>f \<in> set numericFields.
          map_of (figures stats) (total_key f) = Some (round2 (breakdown_total days f)))"
proof (cases "findMany_range userId d0 d1 rows = []")
  case True
  then have "filter (in_range userId d0 d1) rows = []"
    by (metis findMany_range_def mset_sort mset_zero_iff)
  moreover have "dailyBreakdown emptyResult = []"
    by (simp add: emptyResult_def)
  ultimately show ?thesis
    using True figures_empty
    by (simp add: rangeStatistics_def breakdown_total_def round2_0 Let_def)
next
  case False
  let ?found = "findMany_range userId d0 d1 rows"
  have b: "dailyBreakdown (rangeStatistics ?found startDate endDate)
             = sort_key date (dailyData ?found)"
    using False by (simp add: rangeStatistics_def Let_def)
  have m: "mset (map summary ?found)
             = mset (map summary (filter (in_range userId d0 d1) rows))"
    by (simp add: findMany_range_def)
  have t: "\<forall>f \<in> set numericFields.
          map_of (figures (rangeStatistics ?found startDate endDate)) (total_key f)
            = Some (round2 (breakdown_total (sort_key date (dailyData ?found)) f))"
    using figures_lookup(1) [OF False]
    by (simp add: breakdown_sum)
  from breakdown_facts [of ?found] m t show ?thesis
    by (simp add: Let_def b)
qed

text \<open>
  C7, as the code has it. On a cache miss, the meals of the daily breakdown are, each
  exactly once, the meals of the user created from the first millisecond of the start
  day to the last millisecond of the end day; every entry is non-empty and holds meals of
  its own UTC day only, and the entries have different days, in ascending order. For
  every tracked field the reported total is the sum of the field over all meals of all
  entries, a null value counting as 0, rounded to two decimals.
\<close>

theorem breakdown_partitions_range:
  assumes "cached_data now (stats_key userId startDate endDate) (userStatsCache st) = None"
    and "cal startDate = Some d0" and "cal endDate = Some d1"
  shows "\<exists>stats.
           computed_statistics (getRangeStatistics cal now userId startDate endDate st)
             = Some stats
         \<and> (let days = dailyBreakdown stats
             in mset (concat (map meals days))
                  = mset (map summary (filter (in_range userId d0 d1) (db st)))
              \<and> (\<forall>e \<in> set days. meals e \<noteq> []
                    \<and> (\<forall>x \<in> set (meals e). iso_day (s_created_at x) = date e))
              \<and> distinct (map date days) \<and> sorted (map date days)
              \<and> (\<forall>f \<in> set numericFields.
                    map_of (figures stats) (total_key f)
                      = Some (round2 (breakdown_total days f))))"
  using computed_on_miss [OF assms]
        breakdown_of_range [of userId d0 d1 "db st" startDate endDate]
  by (simp add: Let_def)

theorem breakdown_partitions_range_witness:
  "cached_data 0 (stats_key ''u1'' ''1970-01-01'' ''1970-01-02'')
     (userStatsCache (store_of four_meals)) = None
   \<and> january_1970 ''1970-01-01'' = Some 0
   \<and> january_1970 ''1970-01-02'' = Some 1
   \<and> map date (breakdown_of (read_statistics four_meals ''u1'' ''1970-01-01'' ''1970-01-02''))
       = [0, 1]
   \<and> map (map s_meal_id \<circ> meals)
        (breakdown_of (read_statistics four_meals ''u1'' ''1970-01-01'' ''1970-01-02''))
       = [[1, 2, 3], [4]]
   \<and> map s_meal_id (map summary (filter (in_range ''u1'' 0 1) (db (store_of four_meals))))
       = [1, 2, 3, 4]
   \<and> mset (concat (map meals
        (breakdown_of (read_statistics four_meals ''u1'' ''1970-01-01'' ''1970-01-02''))))
       = mset (map summary (filter (in_range ''u1'' 0 1) (db (store_of four_meals))))
   \<and> breakdown_total
        (breakdown_of (read_statistics four_meals ''u1'' ''1970-01-01'' ''1970-01-02''))
        ''calories'' = 300
   \<and> reported (read_statistics four_meals ''u1'' ''1970-01-01'' ''1970-01-02'')
        (total_key ''calories'') = Some 300"
proof -
  let ?R = "read_statistics four_meals ''u1'' ''1970-01-01'' ''1970-01-02''"
  have h1: "cached_data 0 (stats_key ''u1'' ''1970-01-01'' ''1970-01-02'')
              (userStatsCache (store_of four_meals)) = None"
    by (simp add: cached_data_def store_of_def)
  have h2: "january_1970 ''1970-01-01'' = Some 0"
    by (simp add: january_1970_def)
  have h3: "january_1970 ''1970-01-02'' = Some 1"
    by (simp add: january_1970_def)
  have d: "map date (breakdown_of ?R) = [0, 1]"
    by code_simp
  have i: "map (map s_meal_id \<circ> meals) (breakdown_of ?R) = [[1, 2, 3], [4]]"
    by code_simp
  have j: "map s_meal_id (map summary (filter (in_range ''u1'' 0 1) (db (store_of four_meals))))
             = [1, 2, 3, 4]"
    by code_simp
  have s: "breakdown_total (breakdown_of ?R) ''calories'' = 300"
    by code_simp
  have r: "round2 300 = 300"
    by code_simp
  have h: "''calories'' \<in> set numericFields"
    by (simp add: numericFields_def)
  from breakdown_partitions_range
         [where cal = january_1970 and startDate = "''1970-01-01''"
            and endDate = "''1970-01-02''", OF h1 h2 h3]
  obtain stats where
      cs: "?R = Some stats"
    and p: "mset (concat (map meals (dailyBreakdown stats)))
              = mset (map summary (filter (in_range ''u1'' 0 1) (db (store_of four_meals))))"
    and t: "\<forall>f \<in> set numericFields.
              map_of (figures stats) (total_key f)
                = Some (round2 (breakdown_total (dailyBreakdown stats) f))"
    by (auto simp: Let_def read_statistics_def)
  have b: "breakdown_of ?R = dailyBreakdown stats"
    by (simp add: cs breakdown_of_def)
  from t h have "reported ?R (total_key ''calories'') = Some 300"
    using s r by (simp add: cs reported_def breakdown_of_def)
  with h1 h2 h3 d i j s p b show ?thesis
    by simp
qed

text \<open>
  C7 as stated fails for the totals. One meal stores 0.125 calories: the sum over the
  breakdown is 0.125, the reported total is 0.13.
\<close>

theorem breakdown_sum_is_not_rounded:
  "breakdown_total
     (breakdown_of (read_statistics fraction_meals ''u1'' ''1970-01-01'' ''1970-01-01''))
     ''calories'' = 1 / 8
   \<and> reported (read_statistics fraction_meals ''u1'' ''1970-01-01'' ''1970-01-01'')
        (total_key ''calories'') = Some (13 / 100)"
  by code_simp

subsection \<open>A read after a mutation\<close>

text \<open>
  What the entry that \<open>saveMeal\<close> leaves in the statistics cache does to the next read.
  A first read stores the statistics of four meals; \<open>saveMeal\<close> then adds a meal of the
  user in the range; a second read two seconds after the first returns the stored
  statistics of four meals, while the store holds five meals in the range.
\<close>

lemma read_after_saveMeal_is_stale:
  "Option.bind
     (state_after
        (getRangeStatistics january_1970 0 ''u1'' ''1970-01-01'' ''1970-01-02''
           (store_of four_meals)))
     (\<lambda>st1. Option.bind (state_after (saveMeal 1000 ''u1'' egg_data None st1))
        (\<lambda>st2. Some
           (map_option totalMeals
              (computed_statistics
                 (getRangeStatistics january_1970 2000 ''u1'' ''1970-01-01'' ''1970-01-02'' st2)),
            length (findMany_range ''u1'' 0 1 (db st2)))))
     = Some (Some 4, 5)"
  by code_simp

end
